theory Spec2Isabelle
  imports Complex_Main "HOL-Library.Word"
begin

section \<open>Thermodynamic state converter (src/base/iceEnthalpyModel.cc)\<close>

text \<open>
  \<^verbatim>\<open>PetscScalar\<close> is a C double.  In the converter and the enthalpy model it is modelled
  by \<^typ>\<open>real\<close>: every law there is a law of exact arithmetic, and rounding, infinities
  and NaN are outside the model.  The quotient of the enhancement factor, further down, is
  modelled with its infinities and NaN.

  \<^verbatim>\<open>NCConfigVariable::get(name)\<close> looks a named constant up; the names the functions of
  this file read are the fields of the record below.
\<close>

record Config =
  surface_pressure :: real
  earth_gravity :: real
  ice_density :: real
  water_melting_temperature :: real
  beta_CC :: real
  water_specific_heat_capacity :: real
  water_latent_heat_fusion :: real
  ice_specific_heat_capacity :: real

text \<open>
  \<^verbatim>\<open>PetscEnd()\<close> finalises PETSc and exits the process, so each call is a fatal error of
  the model, named after the condition printed just before it.  A C++ \<^verbatim>\<open>throw\<close> is an
  error too, and so is a failed \<^verbatim>\<open>assert\<close>, which aborts the process.
\<close>

datatype error =
    LiquidWaterError
  | InvalidWaterFraction
  | SupercooledInputError
  | NotImplemented
  | AssertionFailure
  | BadInputFile
  | RuntimeError string

text \<open>\<^verbatim>\<open>getPressureFromDepth(config, depth)\<close>\<close>

definition getPressureFromDepth :: "Config \<Rightarrow> real \<Rightarrow> real" where
  "getPressureFromDepth config depth =
     (let p_air = surface_pressure config in
      if depth \<le> 0 then p_air
      else (let g = earth_gravity config; rho_i = ice_density config
            in p_air + rho_i * g * depth))"

text \<open>
  \<^verbatim>\<open>get_H_s(config, p, T_m, H_l, H_s)\<close> writes three output parameters; the model returns
  them as the triple \<open>(T_m, H_l, H_s)\<close>.
\<close>

definition get_H_s :: "Config \<Rightarrow> real \<Rightarrow> real \<times> real \<times> real" where
  "get_H_s config p =
     (let T_0 = water_melting_temperature config;
          beta = beta_CC config;
          c_w = water_specific_heat_capacity config;
          L = water_latent_heat_fusion config;
          T_m = T_0 - beta * p;
          H_l = c_w * T_m;
          H_s = - L + H_l
      in (T_m, H_l, H_s))"

definition getAbsTemp :: "Config \<Rightarrow> real \<Rightarrow> real \<Rightarrow> error + real" where
  "getAbsTemp config H p =
     (case get_H_s config p of (T_m, H_l, H_s) \<Rightarrow>
        if H < H_s then
          (let c_i = ice_specific_heat_capacity config
           in Inr (((H - H_s) / c_i) + T_m))
        else if H < H_l then Inr T_m
        else Inl LiquidWaterError)"

definition getWaterFraction :: "Config \<Rightarrow> real \<Rightarrow> real \<Rightarrow> error + real" where
  "getWaterFraction config H p =
     (case get_H_s config p of (T_m, H_l, H_s) \<Rightarrow>
        if H \<le> H_s then Inr 0
        else if H < H_l then
          (let L = water_latent_heat_fusion config
           in Inr ((H - H_s) / L))
        else Inl LiquidWaterError)"

definition getEnth :: "Config \<Rightarrow> real \<Rightarrow> real \<Rightarrow> real \<Rightarrow> error + real" where
  "getEnth config T omega p =
     (if omega < 0 \<or> 1 < omega then Inl InvalidWaterFraction
      else
        (let T_0 = water_melting_temperature config in
         if T > T_0 + 1 / 1000000 then Inl SupercooledInputError
         else
           (case get_H_s config p of (T_m, H_l, H_s) \<Rightarrow>
              (let c_w = water_specific_heat_capacity config;
                   c_i = ice_specific_heat_capacity config;
                   c = (1 - omega) * c_i + omega * c_w
               in Inr (H_s + c * (T - T_0))))))"

definition getEnth_pa :: "Config \<Rightarrow> real \<Rightarrow> real \<Rightarrow> real \<Rightarrow> error + real" where
  "getEnth_pa config T_pa omega p =
     (if omega < 0 \<or> 1 < omega then Inl InvalidWaterFraction
      else
        (case get_H_s config p of (T_m, H_l, H_s) \<Rightarrow>
           if T_pa > T_m + 1 / 1000000 then Inl SupercooledInputError
           else
             (let c_w = water_specific_heat_capacity config;
                  c_i = ice_specific_heat_capacity config;
                  c = (1 - omega) * c_i + omega * c_w
              in Inr (H_s + c * (T_pa - T_m)))))"

text \<open>The three derived quantities, by name.\<close>

definition T_m_of :: "Config \<Rightarrow> real \<Rightarrow> real" where
  "T_m_of config p = fst (get_H_s config p)"

definition H_l_of :: "Config \<Rightarrow> real \<Rightarrow> real" where
  "H_l_of config p = fst (snd (get_H_s config p))"

definition H_s_of :: "Config \<Rightarrow> real \<Rightarrow> real" where
  "H_s_of config p = snd (snd (get_H_s config p))"

text \<open>The constants of the end-to-end scenario of the specification.\<close>

definition scenario_config :: Config where
  "scenario_config =
     \<lparr> surface_pressure = 0, earth_gravity = 981 / 100, ice_density = 910,
       water_melting_temperature = 27315 / 100, beta_CC = 79 / 1000000000,
       water_specific_heat_capacity = 4170, water_latent_heat_fusion = 334000,
       ice_specific_heat_capacity = 2009 \<rparr>"


section \<open>Enthalpy model: fields, initialisation and stepping (src/base/iceEnthalpyModel.cc)\<close>

text \<open>
  A three-dimensional field (\<^verbatim>\<open>IceModelVec3\<close>) is a store from cell indices \<open>(i, j, k)\<close> to
  values, a two-dimensional one from \<open>(i, j)\<close>.  \<^verbatim>\<open>getInternalColumn(i, j, &col)\<close> gives
  the column \<open>k \<mapsto> field (i, j, k)\<close>, so \<^verbatim>\<open>col[k] = v\<close> updates the store at \<open>(i, j, k)\<close>.
  Indices are \<^verbatim>\<open>PetscInt\<close>, modelled by \<^typ>\<open>int\<close>.
\<close>

type_synonym field3 = "int \<times> int \<times> int \<Rightarrow> real"
type_synonym field2 = "int \<times> int \<Rightarrow> real"

text \<open>The members of \<^verbatim>\<open>IceGrid\<close> that the functions below read.\<close>

record IceGrid =
  xs :: int
  xm :: int
  ys :: int
  ym :: int
  Mz :: int
  Lx :: real
  Ly :: real
  Lz :: real
  zlevels :: "int \<Rightarrow> real"

record IceEnthalpyModel =
  doColdIceTemperatureStep :: bool
  T3 :: field3
  Enth3 :: field3
  EnthNew3 :: field3
  vH :: field2

text \<open>
  \<^verbatim>\<open>setEnth3FromT3_ColdIce()\<close>: three nested loops, here one recursive function per
  loop over the list of its index values.  A fatal error inside \<^verbatim>\<open>getEnth\<close> ends the
  process, so it ends the loops.  The accessors of the fields (\<^verbatim>\<open>begin_access\<close>,
  \<^verbatim>\<open>getInternalColumn\<close>, \<^verbatim>\<open>get_array\<close>, \<^verbatim>\<open>end_access\<close>) are taken to succeed.
\<close>

fun setEnth3_k_loop ::
  "Config \<Rightarrow> IceGrid \<Rightarrow> field2 \<Rightarrow> field3 \<Rightarrow> int \<Rightarrow> int \<Rightarrow> int list \<Rightarrow> field3 \<Rightarrow> error + field3"
where
  "setEnth3_k_loop config grid H T i j [] Enth = Inr Enth"
| "setEnth3_k_loop config grid H T i j (k # ks) Enth =
     (let depth = H (i, j) - zlevels grid k in
      if depth > 0 then
        (case getEnth config (T (i, j, k)) 0 (getPressureFromDepth config depth) of
           Inl e \<Rightarrow> Inl e
         | Inr h \<Rightarrow> setEnth3_k_loop config grid H T i j ks (Enth((i, j, k) := h)))
      else setEnth3_k_loop config grid H T i j ks (Enth((i, j, k) := 0)))"

fun setEnth3_j_loop ::
  "Config \<Rightarrow> IceGrid \<Rightarrow> field2 \<Rightarrow> field3 \<Rightarrow> int \<Rightarrow> int list \<Rightarrow> field3 \<Rightarrow> error + field3"
where
  "setEnth3_j_loop config grid H T i [] Enth = Inr Enth"
| "setEnth3_j_loop config grid H T i (j # js) Enth =
     (case setEnth3_k_loop config grid H T i j [0 .. Mz grid - 1] Enth of
        Inl e \<Rightarrow> Inl e
      | Inr Enth' \<Rightarrow> setEnth3_j_loop config grid H T i js Enth')"

fun setEnth3_i_loop ::
  "Config \<Rightarrow> IceGrid \<Rightarrow> field2 \<Rightarrow> field3 \<Rightarrow> int list \<Rightarrow> field3 \<Rightarrow> error + field3"
where
  "setEnth3_i_loop config grid H T [] Enth = Inr Enth"
| "setEnth3_i_loop config grid H T (i # rest) Enth =
     (case setEnth3_j_loop config grid H T i [ys grid .. ys grid + ym grid - 1] Enth of
        Inl e \<Rightarrow> Inl e
      | Inr Enth' \<Rightarrow> setEnth3_i_loop config grid H T rest Enth')"

text \<open>
  The right-hand side that the body of the innermost loop assigns to \<^verbatim>\<open>Enthij[k]\<close>, as a
  function of the cell; it reads the thickness and the temperature only.
\<close>

definition cold_ice_cell :: "Config \<Rightarrow> IceGrid \<Rightarrow> field2 \<Rightarrow> field3 \<Rightarrow> int \<times> int \<times> int \<Rightarrow> error + real" where
  "cold_ice_cell config grid H T c =
     (case c of (i, j, k) \<Rightarrow>
        (let depth = H (i, j) - zlevels grid k in
         if depth > 0 then getEnth config (T (i, j, k)) 0 (getPressureFromDepth config depth)
         else Inr 0))"

text \<open>
  The ghost exchange \<^verbatim>\<open>Enth3.beginGhostComm(); Enth3.endGhostComm()\<close> belongs to
  \<^verbatim>\<open>IceModelVec3\<close>, which is not among the sources; it is the parameter \<open>ghostComm\<close>.
\<close>

definition setEnth3FromT3_ColdIce ::
  "(field3 \<Rightarrow> field3) \<Rightarrow> Config \<Rightarrow> IceGrid \<Rightarrow> IceEnthalpyModel \<Rightarrow> error + IceEnthalpyModel"
where
  "setEnth3FromT3_ColdIce ghostComm config grid m =
     (case setEnth3_i_loop config grid (vH m) (T3 m) [xs grid .. xs grid + xm grid - 1] (Enth3 m) of
        Inl e \<Rightarrow> Inl e
      | Inr Enth \<Rightarrow> Inr (m\<lparr>Enth3 := ghostComm Enth\<rparr>))"

text \<open>
  What \<^verbatim>\<open>initFromFile\<close> asks of the input file: whether a variable of a given name exists
  (\<^verbatim>\<open>find_variable\<close>) and the lengths of the vertical dimensions (\<^verbatim>\<open>get_grid_info\<close>).
\<close>

record NCFile =
  var_names :: "string list"
  z_len :: nat
  zb_len :: nat

text \<open>
  \<^verbatim>\<open>IceEnthalpyModel::initFromFile(fname)\<close>.  The base class's \<^verbatim>\<open>IceModel::initFromFile\<close>
  and \<^verbatim>\<open>Enth3.regrid\<close> are not among the sources; they are the parameters
  \<open>base_initFromFile\<close> and \<open>regrid\<close>.  The branch that finds the variable but not both
  vertical dimensions prints an error and calls \<^verbatim>\<open>PetscEnd()\<close>.  The calls of
  \<^verbatim>\<open>NCTool\<close> that open and query the file are taken to succeed.
\<close>

definition initFromFile ::
  "(NCFile \<Rightarrow> IceEnthalpyModel \<Rightarrow> error + IceEnthalpyModel) \<Rightarrow>
   (NCFile \<Rightarrow> IceEnthalpyModel \<Rightarrow> error + IceEnthalpyModel) \<Rightarrow>
   (field3 \<Rightarrow> field3) \<Rightarrow> Config \<Rightarrow> IceGrid \<Rightarrow> NCFile \<Rightarrow> IceEnthalpyModel \<Rightarrow>
   error + IceEnthalpyModel"
where
  "initFromFile base_initFromFile regrid ghostComm config grid file m =
     (case base_initFromFile file m of
        Inl e \<Rightarrow> Inl e
      | Inr m1 \<Rightarrow>
          (let enthExists = (''enthalpy'' \<in> set (var_names file)) in
           if enthExists then
             (if z_len file \<noteq> 0 \<and> zb_len file \<noteq> 0 then regrid file m1
              else Inl BadInputFile)
           else setEnth3FromT3_ColdIce ghostComm config grid m1))"

text \<open>
  \<^verbatim>\<open>enthalpyStep(vertSacrCount, bulgeCount)\<close> prints "NOT IMPLEMENTED ... ending" and calls
  \<^verbatim>\<open>PetscEnd()\<close>.  The two counters are output parameters; a step that returns gives the
  model and the counters back.
\<close>

definition enthalpyStep ::
  "IceEnthalpyModel \<Rightarrow> real \<Rightarrow> real \<Rightarrow> error + (IceEnthalpyModel \<times> real \<times> real)"
where
  "enthalpyStep m vertSacrCount bulgeCount = Inl NotImplemented"

text \<open>
  \<^verbatim>\<open>IceEnthalpyModel::temperatureStep\<close>; the base class's \<^verbatim>\<open>IceModel::temperatureStep\<close> is
  the parameter \<open>base_temperatureStep\<close>.
\<close>

definition temperatureStep ::
  "(IceEnthalpyModel \<Rightarrow> real \<Rightarrow> real \<Rightarrow> error + (IceEnthalpyModel \<times> real \<times> real)) \<Rightarrow>
   IceEnthalpyModel \<Rightarrow> real \<Rightarrow> real \<Rightarrow> error + (IceEnthalpyModel \<times> real \<times> real)"
where
  "temperatureStep base_temperatureStep m vertSacrCount bulgeCount =
     (if doColdIceTemperatureStep m then base_temperatureStep m vertSacrCount bulgeCount
      else enthalpyStep m vertSacrCount bulgeCount)"

text \<open>Concrete inputs used to run the functions above.\<close>

definition example_grid :: IceGrid where
  "example_grid =
     \<lparr> xs = 0, xm = 2, ys = 0, ym = 1, Mz = 3,
       Lx = 100, Ly = 50, Lz = 200,
       zlevels = (\<lambda>k. 100 * real_of_int k) \<rparr>"

definition example_model :: IceEnthalpyModel where
  "example_model =
     \<lparr> doColdIceTemperatureStep = False,
       T3 = (\<lambda>c. 260), Enth3 = (\<lambda>c. 7), EnthNew3 = (\<lambda>c. 7), vH = (\<lambda>c. 150) \<rparr>"

definition example_file :: NCFile where
  "example_file = \<lparr> var_names = [''thk'', ''temp''], z_len = 3, zb_len = 1 \<rparr>"

definition keep_model :: "NCFile \<Rightarrow> IceEnthalpyModel \<Rightarrow> error + IceEnthalpyModel" where
  "keep_model file m = Inr m"

definition keep_step ::
  "IceEnthalpyModel \<Rightarrow> real \<Rightarrow> real \<Rightarrow> error + (IceEnthalpyModel \<times> real \<times> real)"
where
  "keep_step m v b = Inr (m, v, b)"


section \<open>Particle queries and enhancement factors (src/fevor/PISMFEvoR.cc)\<close>

text \<open>
  The vertical search of \<^verbatim>\<open>interp_field_point\<close>:
  \<^verbatim>\<open>unsigned int K = 0; while (K + 1 < grid.Mz - 1 && grid.zlevels[K + 1] < z) K++;\<close>
  The comparison is one of unsigned 32-bit integers.
\<close>

function level_below :: "IceGrid \<Rightarrow> real \<Rightarrow> 32 word \<Rightarrow> 32 word" where
  "level_below grid z K =
     (if K + 1 < word_of_int (Mz grid) - 1 \<and> zlevels grid (uint (K + 1)) < z
      then level_below grid z (K + 1) else K)"
  by pat_completeness auto
termination
proof (relation "measure (\<lambda>(grid, z, K). unat (word_of_int (Mz grid) - 1 :: 32 word) - unat (K + 1))")
  show "wf (measure (\<lambda>(grid :: IceGrid, z :: real, K :: 32 word).
              unat (word_of_int (Mz grid) - 1 :: 32 word) - unat (K + 1)))"
    by simp
next
  fix grid :: IceGrid and z :: real and K :: "32 word"
  define a where "a = K + 1"
  define B :: "32 word" where "B = word_of_int (Mz grid) - 1"
  assume "K + 1 < word_of_int (Mz grid) - 1 \<and> zlevels grid (uint (K + 1)) < z"
  then have h: "a < B" by (simp add: a_def B_def)
  then have "a \<noteq> - 1" by (metis word_order.extremum_strict)
  then have "1 + a \<noteq> 0" by (metis add_eq_0_iff)
  then have "unat (1 + a) = Suc (unat a)" by (rule unatSuc)
  moreover from h have "unat a < unat B" by (simp add: word_less_nat_alt)
  ultimately have "unat B - unat (a + 1) < unat B - unat a" by (simp add: add.commute)
  then show "((grid, z, K + 1), (grid, z, K))
      \<in> measure (\<lambda>(grid, z, K). unat (word_of_int (Mz grid) - 1 :: 32 word) - unat (K + 1))"
    by (simp add: a_def B_def)
qed

declare level_below.simps [simp del]

text \<open>
  \<^verbatim>\<open>PISMFEvoR::interp_field_point(x, y, z, field3, feildValue)\<close>; the value written to
  \<^verbatim>\<open>feildValue\<close> is the result.  The two queries of the grid,
  \<^verbatim>\<open>grid.compute_point_neighbors(x, y, I, J)\<close> and \<^verbatim>\<open>grid.compute_interp_weights(x, y)\<close>,
  belong to \<^verbatim>\<open>IceGrid\<close>, which is not among the sources: they are the parameters
  \<open>compute_point_neighbors\<close> and \<open>compute_interp_weights\<close>.  The source takes no error
  code from either, so they are taken to return; \<^verbatim>\<open>getInternalColumn\<close> is taken to succeed.
  The function itself compares the point with no bound of the domain and has no failing
  branch.
\<close>

definition interp_field_point ::
  "(real \<Rightarrow> real \<Rightarrow> int \<times> int) \<Rightarrow> (real \<Rightarrow> real \<Rightarrow> real list) \<Rightarrow>
   IceGrid \<Rightarrow> real \<Rightarrow> real \<Rightarrow> real \<Rightarrow> field3 \<Rightarrow> error + real"
where
  "interp_field_point compute_point_neighbors compute_interp_weights grid x y z field =
     (case compute_point_neighbors x y of (I, J) \<Rightarrow>
        (let weights = compute_interp_weights x y;
             column0 = (\<lambda>k. field (I, J, k));
             column1 = (\<lambda>k. field (I + 1, J, k));
             column2 = (\<lambda>k. field (I + 1, J + 1, k));
             column3 = (\<lambda>k. field (I, J + 1, k));
             K = level_below grid z 0;
             z_weight = (z - zlevels grid (uint K))
                          / (zlevels grid (uint (K + 1)) - zlevels grid (uint K));
             f0 = column0 (uint K) + z_weight * (column0 (uint (K + 1)) - column0 (uint K));
             f1 = column1 (uint K) + z_weight * (column1 (uint (K + 1)) - column1 (uint K));
             f2 = column2 (uint K) + z_weight * (column2 (uint (K + 1)) - column2 (uint K));
             f3 = column3 (uint K) + z_weight * (column3 (uint (K + 1)) - column3 (uint K))
         in Inr (weights ! 0 * f0 + weights ! 1 * f1 + weights ! 2 * f2 + weights ! 3 * f3)))"


text \<open>
  The enhancement factor of a particle is a quotient of two doubles and is then compared
  with 1.0 and 10.0.  What these comparisons do depends on whether the quotient is a number,
  so here a double is a real number, an infinity or NaN.  Rounding and overflow are not
  modelled, and a zero is the positive zero.
\<close>

datatype double = Finite real | PosInf | NegInf | NaN

text \<open>The comparison \<^verbatim>\<open>a < b\<close> of two doubles: false whenever one of them is NaN.\<close>

fun double_less :: "double \<Rightarrow> double \<Rightarrow> bool" where
  "double_less NaN b = False"
| "double_less a NaN = False"
| "double_less (Finite a) (Finite b) = (a < b)"
| "double_less (Finite a) PosInf = True"
| "double_less (Finite a) NegInf = False"
| "double_less PosInf b = False"
| "double_less NegInf (Finite b) = True"
| "double_less NegInf PosInf = True"
| "double_less NegInf NegInf = False"

text \<open>
  The division \<^verbatim>\<open>a / b\<close> of two doubles: NaN from a NaN operand, from \<open>0 / 0\<close> and from a
  quotient of two infinities; an infinity from a nonzero number over zero.
\<close>

fun double_div :: "double \<Rightarrow> double \<Rightarrow> double" where
  "double_div NaN b = NaN"
| "double_div a NaN = NaN"
| "double_div (Finite a) (Finite b) =
     (if b \<noteq> 0 then Finite (a / b)
      else if a = 0 then NaN
      else if 0 < a then PosInf else NegInf)"
| "double_div (Finite a) PosInf = Finite 0"
| "double_div (Finite a) NegInf = Finite 0"
| "double_div PosInf (Finite b) = (if 0 \<le> b then PosInf else NegInf)"
| "double_div NegInf (Finite b) = (if 0 \<le> b then NegInf else PosInf)"
| "double_div PosInf b = NaN"
| "double_div NegInf b = NaN"

text \<open>A double lies in the closed interval from 1 to 10.\<close>

fun within_bounds :: "double \<Rightarrow> bool" where
  "within_bounds (Finite r) = (1 \<le> r \<and> r \<le> 10)"
| "within_bounds d = False"

text \<open>
  The loop of \<^verbatim>\<open>PISMFEvoR::update\<close> over the particles.  For particle \<open>i\<close> the two tensor
  magnitudes \<^verbatim>\<open>tensorMagnitude(bulkEdot)\<close> and \<^verbatim>\<open>tensorMagnitude(bulkEdot_iso)\<close> come out
  of the FEvoR library: \<open>magnitudes i\<close> is that pair, or the error with which one of the
  calls before the quotient made \<^verbatim>\<open>update\<close> return early (\<^verbatim>\<open>CHKERRQ\<close>).  The loop body
  assigns the quotient to \<^verbatim>\<open>p_e[i]\<close> and then bounds it:
  \<^verbatim>\<open>if (p_e[i] < 1.0) p_e[i] = 1.0; else if (p_e[i] > 10.0) p_e[i] = 10.0;\<close>
  What lies between the queries of the fields and the quotient (the stress tensor, the two
  calls of \<^verbatim>\<open>stepInTime\<close>) belongs to that library or feeds it, and is not modelled.
\<close>

definition n_particles :: nat where
  "n_particles = 10"

fun enhancement_loop ::
  "(nat \<Rightarrow> error + (double \<times> double)) \<Rightarrow> nat list \<Rightarrow> double list \<Rightarrow> error + double list"
where
  "enhancement_loop magnitudes [] p_e = Inr p_e"
| "enhancement_loop magnitudes (i # rest) p_e =
     (case magnitudes i of
        Inl e \<Rightarrow> Inl e
      | Inr (a, b) \<Rightarrow>
          (let p_e1 = p_e[i := double_div a b];
               p_e2 = (if double_less (p_e1 ! i) (Finite 1) then p_e1[i := Finite 1]
                       else if double_less (Finite 10) (p_e1 ! i) then p_e1[i := Finite 10]
                       else p_e1)
           in enhancement_loop magnitudes rest p_e2))"

definition update_p_e :: "(nat \<Rightarrow> error + (double \<times> double)) \<Rightarrow> error + double list" where
  "update_p_e magnitudes =
     enhancement_loop magnitudes [0 ..< n_particles] (replicate n_particles (Finite 1))"




definition example_magnitudes :: "nat \<Rightarrow> error + (double \<times> double)" where
  "example_magnitudes i =
     Inr (if i = 0 then (Finite 1, Finite 2)
          else if i = 1 then (Finite 25, Finite 1)
          else if i = 2 then (Finite 0, Finite 0)
          else (Finite 3, Finite 1))"


section \<open>Opening a file through CDI-PIO (src/util/io/CDI.cc)\<close>

text \<open>
  \<^verbatim>\<open>IO_Mode\<close> is declared in \<^verbatim>\<open>IO_Flags.hh\<close>, which is not among the sources; \<^verbatim>\<open>CDI.cc\<close>
  names \<open>PISM_READONLY\<close> only and treats every other mode alike.
\<close>

datatype IO_Mode = PISM_READONLY | PISM_READWRITE | PISM_READWRITE_CLOBBER | PISM_READWRITE_MOVE

text \<open>The members of class \<^verbatim>\<open>CDI\<close> that \<^verbatim>\<open>open_impl\<close> and the functions it calls write.\<close>

record 'axis CDI =
  m_beforediag :: bool
  m_file_id :: int
  m_vlistID :: int
  m_tID :: int
  m_varsID :: "string \<rightharpoonup> int"
  m_zID :: "string \<rightharpoonup> int"
  m_zsID :: int
  m_gridID :: int
  m_dimsAxis :: "string \<rightharpoonup> 'axis"

text \<open>The functions of the external CDI library (\<^verbatim>\<open>cdi.h\<close>) that \<^verbatim>\<open>open_impl\<close> reaches.\<close>

record CDI_lib =
  streamInqVlist :: "int \<Rightarrow> int"
  vlistInqTaxis :: "int \<Rightarrow> int"
  vlistNvars :: "int \<Rightarrow> int"
  vlistInqVarName :: "int \<Rightarrow> int \<Rightarrow> string"
  vlistNzaxis :: "int \<Rightarrow> int"
  vlistZaxis :: "int \<Rightarrow> int \<Rightarrow> int"
  zaxisInqName :: "int \<Rightarrow> string"
  vlistGrid :: "int \<Rightarrow> int \<Rightarrow> int"

definition map_varsID :: "CDI_lib \<Rightarrow> 'axis CDI \<Rightarrow> 'axis CDI" where
  "map_varsID lib c =
     (let Nvars = vlistNvars lib (m_vlistID c)
      in c\<lparr>m_varsID :=
             fold (\<lambda>varID m. m(vlistInqVarName lib (m_vlistID c) varID \<mapsto> varID))
               [0 .. Nvars - 1] (m_varsID c)\<rparr>)"

text \<open>
  \<^verbatim>\<open>m_zsID = m_zID["zs"]\<close>: \<^verbatim>\<open>std::map::operator[]\<close> inserts the value 0 under a key that
  is absent.
\<close>

definition map_zaxisID :: "CDI_lib \<Rightarrow> 'axis CDI \<Rightarrow> 'axis CDI" where
  "map_zaxisID lib c =
     (let nz = vlistNzaxis lib (m_vlistID c);
          zID = fold (\<lambda>n m. (let zaxisID = vlistZaxis lib (m_vlistID c) n
                              in m(zaxisInqName lib zaxisID \<mapsto> zaxisID)))
                  [0 .. nz - 1] (m_zID c);
          zID' = (case zID ''zs'' of None \<Rightarrow> zID(''zs'' \<mapsto> 0) | Some v \<Rightarrow> zID)
      in c\<lparr>m_zID := zID', m_zsID := (case zID ''zs'' of None \<Rightarrow> 0 | Some v \<Rightarrow> v)\<rparr>)"

text \<open>
  \<^verbatim>\<open>CDI::open_impl(fname, mode, FileID, dimsa)\<close>.  The result pairs the outcome (the
  exception thrown, or normal return) with the members of the object afterwards.
\<close>

definition open_impl ::
  "CDI_lib \<Rightarrow> 'axis CDI \<Rightarrow> string \<Rightarrow> IO_Mode \<Rightarrow> int \<Rightarrow> (string \<rightharpoonup> 'axis) \<Rightarrow> (error + unit) \<times> 'axis CDI"
where
  "open_impl lib c fname mode FileID dimsa =
     (if mode = PISM_READONLY then
        (Inl (RuntimeError ''file reading not supported with CDI-PIO in PISM''), c)
      else
        (let c1 = c\<lparr>m_file_id := FileID\<rparr>;
             c2 = c1\<lparr>m_vlistID := streamInqVlist lib (m_file_id c1)\<rparr>;
             c3 = c2\<lparr>m_tID := vlistInqTaxis lib (m_vlistID c2)\<rparr>;
             c4 = map_varsID lib c3;
             c5 = map_zaxisID lib c4;
             c6 = c5\<lparr>m_gridID := vlistGrid lib (m_vlistID c5) 0\<rparr>
         in (Inr (), c6\<lparr>m_dimsAxis := dimsa\<rparr>)))"


section \<open>The conversion laws\<close>

lemma get_H_s_triple:
  "get_H_s config p = (T_m_of config p, H_l_of config p, H_s_of config p)"
  by (simp add: T_m_of_def H_l_of_def H_s_of_def)

lemma T_m_of_eq:
  "T_m_of config p = water_melting_temperature config - beta_CC config * p"
  by (simp add: T_m_of_def get_H_s_def Let_def)

lemma H_l_of_eq:
  "H_l_of config p = water_specific_heat_capacity config * T_m_of config p"
  by (simp add: T_m_of_def H_l_of_def get_H_s_def Let_def)

lemma H_s_of_eq:
  "H_s_of config p = H_l_of config p - water_latent_heat_fusion config"
  by (simp add: H_l_of_def H_s_of_def get_H_s_def Let_def)

lemma getAbsTemp_cases:
  "getAbsTemp config H p =
     (if H < H_s_of config p
      then Inr (T_m_of config p + (H - H_s_of config p) / ice_specific_heat_capacity config)
      else if H < H_l_of config p then Inr (T_m_of config p)
      else Inl LiquidWaterError)"
  by (simp add: getAbsTemp_def get_H_s_triple Let_def add.commute)

lemma getWaterFraction_cases:
  "getWaterFraction config H p =
     (if H \<le> H_s_of config p then Inr 0
      else if H < H_l_of config p
      then Inr ((H - H_s_of config p) / water_latent_heat_fusion config)
      else Inl LiquidWaterError)"
  by (simp add: getWaterFraction_def get_H_s_triple Let_def)

lemma getEnth_cases:
  "getEnth config T omega p =
     (if omega < 0 \<or> 1 < omega then Inl InvalidWaterFraction
      else if T > water_melting_temperature config + 1 / 1000000 then Inl SupercooledInputError
      else Inr (H_s_of config p
                 + ((1 - omega) * ice_specific_heat_capacity config
                     + omega * water_specific_heat_capacity config)
                   * (T - water_melting_temperature config)))"
  by (simp add: getEnth_def get_H_s_triple Let_def)

lemma getEnth_pa_cases:
  "getEnth_pa config T_pa omega p =
     (if omega < 0 \<or> 1 < omega then Inl InvalidWaterFraction
      else if T_pa > T_m_of config p + 1 / 1000000 then Inl SupercooledInputError
      else Inr (H_s_of config p
                 + ((1 - omega) * ice_specific_heat_capacity config
                     + omega * water_specific_heat_capacity config)
                   * (T_pa - T_m_of config p)))"
  by (simp add: getEnth_pa_def get_H_s_triple Let_def)

lemma example_fields:
  "vH example_model = (\<lambda>c. 150)" "T3 example_model = (\<lambda>c. 260)"
  "Enth3 example_model = (\<lambda>c. 7)"
  by (simp_all add: example_model_def)

lemma scenario_fields:
  "surface_pressure scenario_config = 0"
  "earth_gravity scenario_config = 981 / 100"
  "ice_density scenario_config = 910"
  "water_melting_temperature scenario_config = 27315 / 100"
  "beta_CC scenario_config = 79 / 1000000000"
  "water_specific_heat_capacity scenario_config = 4170"
  "water_latent_heat_fusion scenario_config = 334000"
  "ice_specific_heat_capacity scenario_config = 2009"
  by (simp_all add: scenario_config_def)

lemma scenario_triple:
  "T_m_of scenario_config 0 = 27315 / 100"
  "H_l_of scenario_config 0 = 11390355 / 10"
  "H_s_of scenario_config 0 = 8050355 / 10"
  by (simp_all add: T_m_of_eq H_l_of_eq H_s_of_eq scenario_config_def)

text \<open>
  Claim C2.  With \<open>T_m = T_0 - \<beta> p\<close>, \<open>H_l = c_w T_m\<close> and \<open>H_s = H_l - L\<close>:
  \<open>getAbsTemp\<close> returns \<open>T_m + (H - H_s) / c_i\<close> when \<open>H < H_s\<close> and \<open>T_m\<close> when
  \<open>H_s \<le> H < H_l\<close>; \<open>getWaterFraction\<close> returns 0 when \<open>H \<le> H_s\<close> and \<open>(H - H_s) / L\<close>
  when \<open>H_s < H < H_l\<close>; and, the latent heat \<open>L\<close> being positive, each of the two fails
  (with the liquid-water error, and with no other) exactly when \<open>H_l \<le> H\<close>.
\<close>

theorem conversion_law:
  "(H < H_s_of config p \<longrightarrow>
      getAbsTemp config H p =
        Inr (T_m_of config p + (H - H_s_of config p) / ice_specific_heat_capacity config))
   \<and> (H_s_of config p \<le> H \<and> H < H_l_of config p \<longrightarrow> getAbsTemp config H p = Inr (T_m_of config p))
   \<and> (H \<le> H_s_of config p \<longrightarrow> getWaterFraction config H p = Inr 0)
   \<and> (H_s_of config p < H \<and> H < H_l_of config p \<longrightarrow>
        getWaterFraction config H p = Inr ((H - H_s_of config p) / water_latent_heat_fusion config))
   \<and> (0 < water_latent_heat_fusion config \<longrightarrow>
        (getAbsTemp config H p = Inl LiquidWaterError \<longleftrightarrow> H_l_of config p \<le> H)
      \<and> (getWaterFraction config H p = Inl LiquidWaterError \<longleftrightarrow> H_l_of config p \<le> H)
      \<and> ((\<exists>e. getAbsTemp config H p = Inl e) \<longleftrightarrow> H_l_of config p \<le> H)
      \<and> ((\<exists>e. getWaterFraction config H p = Inl e) \<longleftrightarrow> H_l_of config p \<le> H))
   \<and> T_m_of config p = water_melting_temperature config - beta_CC config * p
   \<and> H_l_of config p = water_specific_heat_capacity config * T_m_of config p
   \<and> H_s_of config p = H_l_of config p - water_latent_heat_fusion config"
proof -
  have strict: "0 < water_latent_heat_fusion config \<Longrightarrow> H_s_of config p < H_l_of config p"
    by (simp add: H_s_of_eq)
  show ?thesis
    using strict
    by (auto simp: getAbsTemp_cases getWaterFraction_cases T_m_of_eq H_l_of_eq H_s_of_eq)
qed

theorem conversion_law_witness:
  "getAbsTemp scenario_config 800000 0 = Inr (27315 / 100 + (800000 - 8050355 / 10) / 2009)
   \<and> getWaterFraction scenario_config 800000 0 = Inr 0
   \<and> getAbsTemp scenario_config 900000 0 = Inr (27315 / 100)
   \<and> getWaterFraction scenario_config 900000 0 = Inr ((900000 - 8050355 / 10) / 334000)
   \<and> getAbsTemp scenario_config 2000000 0 = Inl LiquidWaterError
   \<and> getWaterFraction scenario_config 2000000 0 = Inl LiquidWaterError"
  using conversion_law [of 800000 scenario_config 0]
        conversion_law [of 900000 scenario_config 0]
        conversion_law [of 2000000 scenario_config 0]
  by (simp add: scenario_triple scenario_fields)

text \<open>
  Claim C5.  With positive \<open>c_i\<close> and \<open>L\<close>, for enthalpies \<open>H \<le> H' < H_l(p)\<close> both
  conversions return at \<open>H\<close> and at \<open>H'\<close>, the temperature at \<open>H\<close> is at most the one at
  \<open>H'\<close>, the water fraction at \<open>H\<close> is at most the one at \<open>H'\<close>, and both water fractions
  lie in \<open>[0, 1)\<close>.
\<close>

theorem monotone_bounded:
  assumes ci: "0 < ice_specific_heat_capacity config"
      and L: "0 < water_latent_heat_fusion config"
      and le: "H \<le> H'" and below: "H' < H_l_of config p"
  shows "\<exists>t t' w w'.
           getAbsTemp config H p = Inr t \<and> getAbsTemp config H' p = Inr t' \<and> t \<le> t'
         \<and> getWaterFraction config H p = Inr w \<and> getWaterFraction config H' p = Inr w' \<and> w \<le> w'
         \<and> 0 \<le> w \<and> w < 1 \<and> 0 \<le> w' \<and> w' < 1"
proof -
  have HsHl: "H_l_of config p - H_s_of config p = water_latent_heat_fusion config"
    by (simp add: H_s_of_eq)
  have lt: "H < H_l_of config p" using le below by simp
  have frac: "\<And>X. X < H_l_of config p \<Longrightarrow> (X - H_s_of config p) / water_latent_heat_fusion config < 1"
    using L HsHl by (simp add: field_simps)
  have cold: "\<And>X. X < H_s_of config p \<Longrightarrow> (X - H_s_of config p) / ice_specific_heat_capacity config < 0"
    using ci by (simp add: field_simps)
  have mono_t: "(H - H_s_of config p) / ice_specific_heat_capacity config
                 \<le> (H' - H_s_of config p) / ice_specific_heat_capacity config"
    using ci le by (simp add: divide_right_mono)
  have mono_w: "(H - H_s_of config p) / water_latent_heat_fusion config
                 \<le> (H' - H_s_of config p) / water_latent_heat_fusion config"
    using L le by (simp add: divide_right_mono)
  show ?thesis
    using lt below le L mono_t mono_w frac[of H] frac[of H'] cold[of H]
    by (auto simp: getAbsTemp_cases getWaterFraction_cases)
qed

theorem monotone_bounded_witness:
  "\<exists>t t' w w'.
     getAbsTemp scenario_config 800000 0 = Inr t \<and> getAbsTemp scenario_config 900000 0 = Inr t' \<and> t \<le> t'
   \<and> getWaterFraction scenario_config 800000 0 = Inr w
   \<and> getWaterFraction scenario_config 900000 0 = Inr w' \<and> w \<le> w'
   \<and> 0 \<le> w \<and> w < 1 \<and> 0 \<le> w' \<and> w' < 1"
proof -
  have h1: "0 < ice_specific_heat_capacity scenario_config" by (simp add: scenario_fields)
  have h2: "0 < water_latent_heat_fusion scenario_config" by (simp add: scenario_fields)
  have h3: "(800000 :: real) \<le> 900000" by simp
  have h4: "900000 < H_l_of scenario_config 0" by (simp add: scenario_triple)
  show ?thesis by (rule monotone_bounded [OF h1 h2 h3 h4])
qed

text \<open>
  Claim C4, as amended.  \<open>getEnth\<close> and \<open>getEnth_pa\<close> fail with the water-fraction error
  exactly when \<open>\<omega> < 0\<close> or \<open>1 < \<omega>\<close>; they fail with the supercooled-input error exactly
  when \<open>\<omega>\<close> is within \<open>[0, 1]\<close> and the temperature exceeds the bound (\<open>T_0\<close> for
  \<open>getEnth\<close>, \<open>T_m(p)\<close> for \<open>getEnth_pa\<close>) by more than 0.000001; otherwise they return
  \<open>H_s(p) + ((1 - \<omega>) c_i + \<omega> c_w) (T - reference)\<close>.
\<close>

theorem input_validation:
  "(getEnth config T omega p = Inl InvalidWaterFraction \<longleftrightarrow> omega < 0 \<or> 1 < omega)
   \<and> (getEnth_pa config T omega p = Inl InvalidWaterFraction \<longleftrightarrow> omega < 0 \<or> 1 < omega)
   \<and> (getEnth config T omega p = Inl SupercooledInputError \<longleftrightarrow>
        (0 \<le> omega \<and> omega \<le> 1) \<and> T > water_melting_temperature config + 1 / 1000000)
   \<and> (getEnth_pa config T omega p = Inl SupercooledInputError \<longleftrightarrow>
        (0 \<le> omega \<and> omega \<le> 1) \<and> T > T_m_of config p + 1 / 1000000)
   \<and> ((0 \<le> omega \<and> omega \<le> 1) \<and> T \<le> water_melting_temperature config + 1 / 1000000 \<longrightarrow>
        getEnth config T omega p =
          Inr (H_s_of config p
                + ((1 - omega) * ice_specific_heat_capacity config
                    + omega * water_specific_heat_capacity config)
                  * (T - water_melting_temperature config)))
   \<and> ((0 \<le> omega \<and> omega \<le> 1) \<and> T \<le> T_m_of config p + 1 / 1000000 \<longrightarrow>
        getEnth_pa config T omega p =
          Inr (H_s_of config p
                + ((1 - omega) * ice_specific_heat_capacity config
                    + omega * water_specific_heat_capacity config)
                  * (T - T_m_of config p)))"
  by (auto simp: getEnth_cases getEnth_pa_cases)

theorem input_validation_witness:
  "getEnth scenario_config 260 (1 / 2) 0
     = Inr (8050355 / 10 + ((1 - 1 / 2) * 2009 + 1 / 2 * 4170) * (260 - 27315 / 100))
   \<and> getEnth_pa scenario_config 260 (1 / 2) 0
     = Inr (8050355 / 10 + ((1 - 1 / 2) * 2009 + 1 / 2 * 4170) * (260 - 27315 / 100))
   \<and> getEnth scenario_config 300 (1 / 2) 0 = Inl SupercooledInputError
   \<and> getEnth_pa scenario_config 300 (1 / 2) 0 = Inl SupercooledInputError
   \<and> getEnth scenario_config 260 2 0 = Inl InvalidWaterFraction
   \<and> getEnth_pa scenario_config 260 2 0 = Inl InvalidWaterFraction"
  using input_validation [of scenario_config 260 "1 / 2" 0]
        input_validation [of scenario_config 300 "1 / 2" 0]
        input_validation [of scenario_config 260 2 0]
  by (simp add: scenario_triple scenario_fields)

text \<open>
  Claim C4, as stated, fails where both checks would fire: with \<open>\<omega> = 2\<close> and \<open>T = 300\<close>
  the temperature exceeds the bound by more than the tolerance, and both functions end with
  the water-fraction error, the first check, not with the supercooled-input error.
\<close>

theorem input_validation_counterexample:
  "water_melting_temperature scenario_config + 1 / 1000000 < 300
   \<and> getEnth scenario_config 300 2 0 = Inl InvalidWaterFraction
   \<and> getEnth scenario_config 300 2 0 \<noteq> Inl SupercooledInputError
   \<and> T_m_of scenario_config 0 + 1 / 1000000 < 300
   \<and> getEnth_pa scenario_config 300 2 0 = Inl InvalidWaterFraction
   \<and> getEnth_pa scenario_config 300 2 0 \<noteq> Inl SupercooledInputError"
  by (simp add: getEnth_cases getEnth_pa_cases scenario_triple) (simp add: scenario_config_def)

text \<open>
  Claim C1, as amended.  With positive \<open>c_i\<close> and \<open>L\<close> and water fraction \<open>\<omega> = 0\<close>: for
  every pressure \<open>p\<close> and temperature \<open>T \<le> T_m(p)\<close>, \<open>getEnth_pa\<close> returns an enthalpy
  that \<open>getAbsTemp\<close> decodes to \<open>T\<close> and \<open>getWaterFraction\<close> to 0; the same holds of
  \<open>getEnth\<close> for \<open>T \<le> T_0\<close> at a pressure with \<open>\<beta> p = 0\<close>, where \<open>T_0 = T_m(p)\<close>.
\<close>

theorem roundtrip_cold_ice:
  assumes ci: "0 < ice_specific_heat_capacity config"
      and L: "0 < water_latent_heat_fusion config"
  shows "(T \<le> T_m_of config p \<longrightarrow>
            (\<exists>H. getEnth_pa config T 0 p = Inr H
                \<and> getAbsTemp config H p = Inr T \<and> getWaterFraction config H p = Inr 0))
       \<and> (beta_CC config * p = 0 \<and> T \<le> water_melting_temperature config \<longrightarrow>
            (\<exists>H. getEnth config T 0 p = Inr H
                \<and> getAbsTemp config H p = Inr T \<and> getWaterFraction config H p = Inr 0))"
proof -
  have strict: "H_s_of config p < H_l_of config p"
    using L by (simp add: H_s_of_eq)
  have decode: "\<And>d. d \<le> 0 \<Longrightarrow>
      getAbsTemp config (H_s_of config p + ice_specific_heat_capacity config * d) p
        = Inr (T_m_of config p + d)
    \<and> getWaterFraction config (H_s_of config p + ice_specific_heat_capacity config * d) p = Inr 0"
  proof -
    fix d :: real assume d: "d \<le> 0"
    have "ice_specific_heat_capacity config * d \<le> 0"
      using ci d by (simp add: mult_le_0_iff)
    then show "getAbsTemp config (H_s_of config p + ice_specific_heat_capacity config * d) p
        = Inr (T_m_of config p + d)
      \<and> getWaterFraction config (H_s_of config p + ice_specific_heat_capacity config * d) p = Inr 0"
      using ci strict d by (auto simp: getAbsTemp_cases getWaterFraction_cases mult_less_0_iff)
  qed
  have pa: "T \<le> T_m_of config p \<Longrightarrow>
      (\<exists>H. getEnth_pa config T 0 p = Inr H
          \<and> getAbsTemp config H p = Inr T \<and> getWaterFraction config H p = Inr 0)"
    using decode[of "T - T_m_of config p"] by (simp add: getEnth_pa_cases)
  have ab: "beta_CC config * p = 0 \<Longrightarrow> T \<le> water_melting_temperature config \<Longrightarrow>
      (\<exists>H. getEnth config T 0 p = Inr H
          \<and> getAbsTemp config H p = Inr T \<and> getWaterFraction config H p = Inr 0)"
    using decode[of "T - water_melting_temperature config"] by (simp add: getEnth_cases T_m_of_eq)
  show ?thesis using pa ab by blast
qed

theorem roundtrip_cold_ice_witness:
  "(\<exists>H. getEnth_pa scenario_config 260 0 1000000 = Inr H
       \<and> getAbsTemp scenario_config H 1000000 = Inr 260
       \<and> getWaterFraction scenario_config H 1000000 = Inr 0)
   \<and> (\<exists>H. getEnth scenario_config 260 0 0 = Inr H
       \<and> getAbsTemp scenario_config H 0 = Inr 260
       \<and> getWaterFraction scenario_config H 0 = Inr 0)"
proof -
  have h1: "0 < ice_specific_heat_capacity scenario_config" by (simp add: scenario_fields)
  have h2: "0 < water_latent_heat_fusion scenario_config" by (simp add: scenario_fields)
  have a: "260 \<le> T_m_of scenario_config 1000000"
    by (simp add: T_m_of_eq scenario_fields)
  have b: "beta_CC scenario_config * 0 = 0 \<and> 260 \<le> water_melting_temperature scenario_config"
    by (simp add: scenario_fields)
  from roundtrip_cold_ice [OF h1 h2, of 260 1000000] a
  have first: "\<exists>H. getEnth_pa scenario_config 260 0 1000000 = Inr H
       \<and> getAbsTemp scenario_config H 1000000 = Inr 260
       \<and> getWaterFraction scenario_config H 1000000 = Inr 0"
    by blast
  from roundtrip_cold_ice [OF h1 h2, of 260 0] b
  have second: "\<exists>H. getEnth scenario_config 260 0 0 = Inr H
       \<and> getAbsTemp scenario_config H 0 = Inr 260
       \<and> getWaterFraction scenario_config H 0 = Inr 0"
    by blast
  from first second show ?thesis by blast
qed

text \<open>
  Claim C1, as stated, fails twice.  At \<open>p = 1000000\<close>, \<open>\<omega> = 0\<close>, \<open>T = 260\<close> the
  enthalpy of \<open>getEnth\<close> decodes to \<open>260 - 0.079\<close>, not to 260.  At \<open>p = 0\<close>,
  \<open>\<omega> = 1/2\<close>, \<open>T = 272.15\<close> the enthalpy of \<open>getEnth_pa\<close> decodes to the temperature
  \<open>273.15 - 6179/4018\<close>, not to 272.15, and to the water fraction 0, not to 1/2.
\<close>

theorem roundtrip_counterexample:
  "getEnth scenario_config 260 0 1000000 = Inr (H_s_of scenario_config 1000000 - 2009 * (1315 / 100))
   \<and> getAbsTemp scenario_config (H_s_of scenario_config 1000000 - 2009 * (1315 / 100)) 1000000
       = Inr (260 - 79 / 1000)
   \<and> getEnth_pa scenario_config (27215 / 100) (1 / 2) 0 = Inr (8050355 / 10 - 6179 / 2)
   \<and> getAbsTemp scenario_config (8050355 / 10 - 6179 / 2) 0 = Inr (27315 / 100 - 6179 / 4018)
   \<and> getWaterFraction scenario_config (8050355 / 10 - 6179 / 2) 0 = Inr 0"
  apply (simp add: getEnth_cases getEnth_pa_cases getAbsTemp_cases getWaterFraction_cases scenario_triple)
  apply (simp add: scenario_config_def T_m_of_eq H_l_of_eq H_s_of_eq)
  done

text \<open>
  Claim C7, as amended.  At \<open>p = 0\<close> with the constants of the scenario, \<open>H_s(0) =
  c_w T_0 - L = 805035.5\<close>; the enthalpy \<open>805035.5 - 2009\<close> maps to the temperature 272.15
  and the water fraction 0; the enthalpy \<open>H_s(0) + 1000\<close> maps to the temperature \<open>T_0 =
  273.15\<close> and the water fraction \<open>1000/334000\<close>.
\<close>

theorem scenario_values:
  "H_s_of scenario_config 0 = 8050355 / 10
   \<and> getAbsTemp scenario_config (8050355 / 10 - 2009) 0 = Inr (27215 / 100)
   \<and> getWaterFraction scenario_config (8050355 / 10 - 2009) 0 = Inr 0
   \<and> getAbsTemp scenario_config (H_s_of scenario_config 0 + 1000) 0 = Inr (27315 / 100)
   \<and> getWaterFraction scenario_config (H_s_of scenario_config 0 + 1000) 0 = Inr (1000 / 334000)"
  by (simp add: getAbsTemp_cases getWaterFraction_cases scenario_triple)
     (simp add: scenario_config_def)

text \<open>
  Claim C7, as stated, fails: \<open>H_s(0)\<close> is 805035.5, which is 108.05 below the 805143.55
  of the claim, and the enthalpy \<open>805143.55 - 2009\<close> maps to the temperature
  \<open>272.15 + 108.05/2009\<close>, not to 272.15.
\<close>

theorem scenario_counterexample:
  "H_s_of scenario_config 0 = 80514355 / 100 - 10805 / 100
   \<and> getAbsTemp scenario_config (80514355 / 100 - 2009) 0 = Inr (27215 / 100 + 10805 / 200900)
   \<and> getAbsTemp scenario_config (80514355 / 100 - 2009) 0 \<noteq> Inr (27215 / 100)"
  by (simp add: getAbsTemp_cases scenario_triple)
     (simp add: scenario_config_def)


section \<open>Stepping and initialisation of the enthalpy model\<close>

text \<open>
  Claim C3, as amended.  When \<open>doColdIceTemperatureStep\<close> is false, \<open>temperatureStep\<close>
  calls \<open>enthalpyStep\<close>, which is not implemented: it ends the run, and returns neither a
  new field nor counters.  When the flag is true, \<open>temperatureStep\<close> is the temperature
  step of the base class.
\<close>

theorem enthalpy_step_not_implemented:
  "(\<not> doColdIceTemperatureStep m \<longrightarrow>
      temperatureStep base_temperatureStep m vertSacrCount bulgeCount
        = enthalpyStep m vertSacrCount bulgeCount
      \<and> temperatureStep base_temperatureStep m vertSacrCount bulgeCount = Inl NotImplemented)
   \<and> (doColdIceTemperatureStep m \<longrightarrow>
      temperatureStep base_temperatureStep m vertSacrCount bulgeCount
        = base_temperatureStep m vertSacrCount bulgeCount)"
  by (simp add: temperatureStep_def enthalpyStep_def)

theorem enthalpy_step_witness:
  "\<not> doColdIceTemperatureStep example_model
   \<and> temperatureStep keep_step example_model 0 0 = Inl NotImplemented
   \<and> doColdIceTemperatureStep (example_model\<lparr>doColdIceTemperatureStep := True\<rparr>)
   \<and> temperatureStep keep_step (example_model\<lparr>doColdIceTemperatureStep := True\<rparr>) 2 3
       = Inr (example_model\<lparr>doColdIceTemperatureStep := True\<rparr>, 2, 3)"
  using enthalpy_step_not_implemented [of example_model keep_step 0 0]
        enthalpy_step_not_implemented
          [of "example_model\<lparr>doColdIceTemperatureStep := True\<rparr>" keep_step 2 3]
  by (simp add: example_model_def keep_step_def enthalpyStep_def)

text \<open>
  Claim C3, as stated, fails: with the enthalpy mode enabled the step does not return
  normally, whatever the base step is.
\<close>

theorem enthalpy_step_counterexample:
  "\<not> doColdIceTemperatureStep example_model
   \<and> temperatureStep keep_step example_model 0 0 = Inl NotImplemented
   \<and> (\<forall>r. temperatureStep keep_step example_model 0 0 \<noteq> Inr r)"
  by (simp add: temperatureStep_def enthalpyStep_def example_model_def)

lemma k_loop_step:
  "setEnth3_k_loop config grid H T i j (k # ks) Enth =
     (case cold_ice_cell config grid H T (i, j, k) of
        Inl e \<Rightarrow> Inl e
      | Inr v \<Rightarrow> setEnth3_k_loop config grid H T i j ks (Enth((i, j, k) := v)))"
  by (simp add: cold_ice_cell_def Let_def)

lemma k_loop_result:
  assumes "\<forall>k \<in> set ks. \<exists>v. cold_ice_cell config grid H T (i, j, k) = Inr v"
  shows "\<exists>E'. setEnth3_k_loop config grid H T i j ks Enth = Inr E'
            \<and> (\<forall>k \<in> set ks. cold_ice_cell config grid H T (i, j, k) = Inr (E' (i, j, k)))
            \<and> (\<forall>c. (\<forall>k \<in> set ks. c \<noteq> (i, j, k)) \<longrightarrow> E' c = Enth c)"
  using assms
proof (induction ks arbitrary: Enth)
  case Nil
  then show ?case by simp
next
  case (Cons k ks)
  from Cons.prems obtain v where v: "cold_ice_cell config grid H T (i, j, k) = Inr v"
    by auto
  from Cons.prems have rest: "\<forall>k \<in> set ks. \<exists>v. cold_ice_cell config grid H T (i, j, k) = Inr v"
    by simp
  from Cons.IH[OF rest, of "Enth((i, j, k) := v)"] obtain E' where
    run: "setEnth3_k_loop config grid H T i j ks (Enth((i, j, k) := v)) = Inr E'"
    and inside: "\<forall>k \<in> set ks. cold_ice_cell config grid H T (i, j, k) = Inr (E' (i, j, k))"
    and outside: "\<forall>c. (\<forall>k' \<in> set ks. c \<noteq> (i, j, k')) \<longrightarrow> E' c = (Enth((i, j, k) := v)) c"
    by blast
  have here: "cold_ice_cell config grid H T (i, j, k) = Inr (E' (i, j, k))"
  proof (cases "k \<in> set ks")
    case True
    then show ?thesis using inside by simp
  next
    case False
    then have "\<forall>k' \<in> set ks. (i, j, k) \<noteq> (i, j, k')" by auto
    then have "E' (i, j, k) = (Enth((i, j, k) := v)) (i, j, k)"
      using outside by blast
    then show ?thesis using v by simp
  qed
  have "setEnth3_k_loop config grid H T i j (k # ks) Enth = Inr E'"
    using run v by (simp only: k_loop_step sum.case)
  moreover have "\<forall>k' \<in> set (k # ks). cold_ice_cell config grid H T (i, j, k') = Inr (E' (i, j, k'))"
    using here inside by simp
  moreover have "\<forall>c. (\<forall>k' \<in> set (k # ks). c \<noteq> (i, j, k')) \<longrightarrow> E' c = Enth c"
  proof (intro allI impI)
    fix c assume a: "\<forall>k' \<in> set (k # ks). c \<noteq> (i, j, k')"
    then have "\<forall>k' \<in> set ks. c \<noteq> (i, j, k')" by simp
    then have "E' c = (Enth((i, j, k) := v)) c" using outside by blast
    moreover from a have "c \<noteq> (i, j, k)" by simp
    ultimately show "E' c = Enth c" by simp
  qed
  ultimately show ?case by blast
qed

lemma j_loop_result:
  assumes "\<forall>j \<in> set js. \<forall>k \<in> {0 .. Mz grid - 1}. \<exists>v. cold_ice_cell config grid H T (i, j, k) = Inr v"
  shows "\<exists>E'. setEnth3_j_loop config grid H T i js Enth = Inr E'
            \<and> (\<forall>j \<in> set js. \<forall>k \<in> {0 .. Mz grid - 1}.
                  cold_ice_cell config grid H T (i, j, k) = Inr (E' (i, j, k)))
            \<and> (\<forall>c. (\<forall>j \<in> set js. \<forall>k \<in> {0 .. Mz grid - 1}. c \<noteq> (i, j, k)) \<longrightarrow> E' c = Enth c)"
  using assms
proof (induction js arbitrary: Enth)
  case Nil
  then show ?case by simp
next
  case (Cons j js)
  from Cons.prems have col: "\<forall>k \<in> set [0 .. Mz grid - 1]. \<exists>v. cold_ice_cell config grid H T (i, j, k) = Inr v"
    by simp
  from k_loop_result[OF col, of Enth] obtain E1 where
    run1: "setEnth3_k_loop config grid H T i j [0 .. Mz grid - 1] Enth = Inr E1"
    and in1: "\<forall>k \<in> {0 .. Mz grid - 1}. cold_ice_cell config grid H T (i, j, k) = Inr (E1 (i, j, k))"
    and out1: "\<forall>c. (\<forall>k \<in> {0 .. Mz grid - 1}. c \<noteq> (i, j, k)) \<longrightarrow> E1 c = Enth c"
    by auto
  from Cons.prems have rest:
    "\<forall>j \<in> set js. \<forall>k \<in> {0 .. Mz grid - 1}. \<exists>v. cold_ice_cell config grid H T (i, j, k) = Inr v"
    by simp
  from Cons.IH[OF rest, of E1] obtain E' where
    run: "setEnth3_j_loop config grid H T i js E1 = Inr E'"
    and inside: "\<forall>j \<in> set js. \<forall>k \<in> {0 .. Mz grid - 1}.
                   cold_ice_cell config grid H T (i, j, k) = Inr (E' (i, j, k))"
    and outside: "\<forall>c. (\<forall>j \<in> set js. \<forall>k \<in> {0 .. Mz grid - 1}. c \<noteq> (i, j, k)) \<longrightarrow> E' c = E1 c"
    by blast
  have here: "\<forall>k \<in> {0 .. Mz grid - 1}. cold_ice_cell config grid H T (i, j, k) = Inr (E' (i, j, k))"
  proof (cases "j \<in> set js")
    case True
    then show ?thesis using inside by simp
  next
    case False
    have "\<forall>k \<in> {0 .. Mz grid - 1}. E' (i, j, k) = E1 (i, j, k)"
    proof (intro ballI)
      fix k
      have "\<forall>j' \<in> set js. \<forall>k' \<in> {0 .. Mz grid - 1}. (i, j, k) \<noteq> (i, j', k')"
        using False by auto
      then show "E' (i, j, k) = E1 (i, j, k)" using outside by blast
    qed
    then show ?thesis using in1 by simp
  qed
  have "setEnth3_j_loop config grid H T i (j # js) Enth = Inr E'"
    using run run1 by simp
  moreover have "\<forall>j' \<in> set (j # js). \<forall>k \<in> {0 .. Mz grid - 1}.
                   cold_ice_cell config grid H T (i, j', k) = Inr (E' (i, j', k))"
    using here inside by simp
  moreover have "\<forall>c. (\<forall>j' \<in> set (j # js). \<forall>k \<in> {0 .. Mz grid - 1}. c \<noteq> (i, j', k)) \<longrightarrow> E' c = Enth c"
  proof (intro allI impI)
    fix c assume a: "\<forall>j' \<in> set (j # js). \<forall>k \<in> {0 .. Mz grid - 1}. c \<noteq> (i, j', k)"
    then have "\<forall>j' \<in> set js. \<forall>k \<in> {0 .. Mz grid - 1}. c \<noteq> (i, j', k)" by simp
    then have "E' c = E1 c" using outside by blast
    moreover from a have "\<forall>k \<in> {0 .. Mz grid - 1}. c \<noteq> (i, j, k)" by simp
    then have "E1 c = Enth c" using out1 by blast
    ultimately show "E' c = Enth c" by simp
  qed
  ultimately show ?case by blast
qed

lemma i_loop_result:
  assumes "\<forall>i \<in> set idx. \<forall>j \<in> {ys grid .. ys grid + ym grid - 1}. \<forall>k \<in> {0 .. Mz grid - 1}.
             \<exists>v. cold_ice_cell config grid H T (i, j, k) = Inr v"
  shows "\<exists>E'. setEnth3_i_loop config grid H T idx Enth = Inr E'
            \<and> (\<forall>i \<in> set idx. \<forall>j \<in> {ys grid .. ys grid + ym grid - 1}. \<forall>k \<in> {0 .. Mz grid - 1}.
                  cold_ice_cell config grid H T (i, j, k) = Inr (E' (i, j, k)))
            \<and> (\<forall>c. (\<forall>i \<in> set idx. \<forall>j \<in> {ys grid .. ys grid + ym grid - 1}. \<forall>k \<in> {0 .. Mz grid - 1}.
                       c \<noteq> (i, j, k)) \<longrightarrow> E' c = Enth c)"
  using assms
proof (induction idx arbitrary: Enth)
  case Nil
  then show ?case by simp
next
  case (Cons i idx)
  from Cons.prems have row: "\<forall>j \<in> set [ys grid .. ys grid + ym grid - 1]. \<forall>k \<in> {0 .. Mz grid - 1}.
      \<exists>v. cold_ice_cell config grid H T (i, j, k) = Inr v"
    by simp
  from j_loop_result[OF row, of Enth] obtain E1 where
    run1: "setEnth3_j_loop config grid H T i [ys grid .. ys grid + ym grid - 1] Enth = Inr E1"
    and in1: "\<forall>j \<in> {ys grid .. ys grid + ym grid - 1}. \<forall>k \<in> {0 .. Mz grid - 1}.
                cold_ice_cell config grid H T (i, j, k) = Inr (E1 (i, j, k))"
    and out1: "\<forall>c. (\<forall>j \<in> {ys grid .. ys grid + ym grid - 1}. \<forall>k \<in> {0 .. Mz grid - 1}. c \<noteq> (i, j, k))
                \<longrightarrow> E1 c = Enth c"
    by auto
  from Cons.prems have rest:
    "\<forall>i \<in> set idx. \<forall>j \<in> {ys grid .. ys grid + ym grid - 1}. \<forall>k \<in> {0 .. Mz grid - 1}.
       \<exists>v. cold_ice_cell config grid H T (i, j, k) = Inr v"
    by simp
  from Cons.IH[OF rest, of E1] obtain E' where
    run: "setEnth3_i_loop config grid H T idx E1 = Inr E'"
    and inside: "\<forall>i \<in> set idx. \<forall>j \<in> {ys grid .. ys grid + ym grid - 1}. \<forall>k \<in> {0 .. Mz grid - 1}.
                   cold_ice_cell config grid H T (i, j, k) = Inr (E' (i, j, k))"
    and outside: "\<forall>c. (\<forall>i \<in> set idx. \<forall>j \<in> {ys grid .. ys grid + ym grid - 1}. \<forall>k \<in> {0 .. Mz grid - 1}.
                       c \<noteq> (i, j, k)) \<longrightarrow> E' c = E1 c"
    by blast
  have here: "\<forall>j \<in> {ys grid .. ys grid + ym grid - 1}. \<forall>k \<in> {0 .. Mz grid - 1}.
                cold_ice_cell config grid H T (i, j, k) = Inr (E' (i, j, k))"
  proof (cases "i \<in> set idx")
    case True
    then show ?thesis using inside by simp
  next
    case False
    have "\<forall>j \<in> {ys grid .. ys grid + ym grid - 1}. \<forall>k \<in> {0 .. Mz grid - 1}.
                 E' (i, j, k) = E1 (i, j, k)"
    proof (intro ballI)
      fix j k
      have "\<forall>i' \<in> set idx. \<forall>j' \<in> {ys grid .. ys grid + ym grid - 1}. \<forall>k' \<in> {0 .. Mz grid - 1}.
              (i, j, k) \<noteq> (i', j', k')"
        using False by auto
      then show "E' (i, j, k) = E1 (i, j, k)" using outside by blast
    qed
    then show ?thesis using in1 by simp
  qed
  have "setEnth3_i_loop config grid H T (i # idx) Enth = Inr E'"
    using run run1 by simp
  moreover have "\<forall>i' \<in> set (i # idx). \<forall>j \<in> {ys grid .. ys grid + ym grid - 1}. \<forall>k \<in> {0 .. Mz grid - 1}.
                   cold_ice_cell config grid H T (i', j, k) = Inr (E' (i', j, k))"
    using here inside by simp
  moreover have "\<forall>c. (\<forall>i' \<in> set (i # idx). \<forall>j \<in> {ys grid .. ys grid + ym grid - 1}.
                        \<forall>k \<in> {0 .. Mz grid - 1}. c \<noteq> (i', j, k)) \<longrightarrow> E' c = Enth c"
  proof (intro allI impI)
    fix c assume a: "\<forall>i' \<in> set (i # idx). \<forall>j \<in> {ys grid .. ys grid + ym grid - 1}.
                        \<forall>k \<in> {0 .. Mz grid - 1}. c \<noteq> (i', j, k)"
    then have "\<forall>i' \<in> set idx. \<forall>j \<in> {ys grid .. ys grid + ym grid - 1}.
                 \<forall>k \<in> {0 .. Mz grid - 1}. c \<noteq> (i', j, k)" by simp
    then have "E' c = E1 c" using outside by blast
    moreover from a have "\<forall>j \<in> {ys grid .. ys grid + ym grid - 1}.
                 \<forall>k \<in> {0 .. Mz grid - 1}. c \<noteq> (i, j, k)" by simp
    then have "E1 c = Enth c" using out1 by blast
    ultimately show "E' c = Enth c" by simp
  qed
  ultimately show ?case by blast
qed

lemma cold_ice_cell_ok:
  assumes "vH' (i, j) - zlevels grid k > 0 \<longrightarrow> T (i, j, k) \<le> water_melting_temperature config + 1 / 1000000"
  shows "\<exists>v. cold_ice_cell config grid vH' T (i, j, k) = Inr v"
  using assms by (auto simp: cold_ice_cell_def Let_def getEnth_def split: prod.splits)

lemma k_loop_returns:
  assumes "setEnth3_k_loop config grid H T i j ks Enth = Inr E'"
  shows "\<forall>k \<in> set ks. \<exists>v. cold_ice_cell config grid H T (i, j, k) = Inr v"
  using assms
proof (induction ks arbitrary: Enth)
  case Nil
  then show ?case by simp
next
  case (Cons k ks)
  show ?case
  proof (cases "cold_ice_cell config grid H T (i, j, k)")
    case (Inl e)
    then show ?thesis using Cons.prems by (simp only: k_loop_step sum.case) simp
  next
    case (Inr v)
    then have "setEnth3_k_loop config grid H T i j ks (Enth((i, j, k) := v)) = Inr E'"
      using Cons.prems by (simp only: k_loop_step sum.case)
    then have "\<forall>k \<in> set ks. \<exists>v. cold_ice_cell config grid H T (i, j, k) = Inr v"
      by (rule Cons.IH)
    then show ?thesis using Inr by simp
  qed
qed

lemma j_loop_returns:
  assumes "setEnth3_j_loop config grid H T i js Enth = Inr E'"
  shows "\<forall>j \<in> set js. \<forall>k \<in> {0 .. Mz grid - 1}. \<exists>v. cold_ice_cell config grid H T (i, j, k) = Inr v"
  using assms
proof (induction js arbitrary: Enth)
  case Nil
  then show ?case by simp
next
  case (Cons j js)
  show ?case
  proof (cases "setEnth3_k_loop config grid H T i j [0 .. Mz grid - 1] Enth")
    case (Inl e)
    then show ?thesis using Cons.prems by simp
  next
    case (Inr E1)
    then have "setEnth3_j_loop config grid H T i js E1 = Inr E'"
      using Cons.prems by simp
    then have rest: "\<forall>j \<in> set js. \<forall>k \<in> {0 .. Mz grid - 1}.
                       \<exists>v. cold_ice_cell config grid H T (i, j, k) = Inr v"
      by (rule Cons.IH)
    from k_loop_returns[OF Inr]
    have "\<forall>k \<in> {0 .. Mz grid - 1}. \<exists>v. cold_ice_cell config grid H T (i, j, k) = Inr v"
      by simp
    then show ?thesis using rest by simp
  qed
qed

lemma i_loop_returns:
  assumes "setEnth3_i_loop config grid H T idx Enth = Inr E'"
  shows "\<forall>i \<in> set idx. \<forall>j \<in> {ys grid .. ys grid + ym grid - 1}. \<forall>k \<in> {0 .. Mz grid - 1}.
           \<exists>v. cold_ice_cell config grid H T (i, j, k) = Inr v"
  using assms
proof (induction idx arbitrary: Enth)
  case Nil
  then show ?case by simp
next
  case (Cons i idx)
  show ?case
  proof (cases "setEnth3_j_loop config grid H T i [ys grid .. ys grid + ym grid - 1] Enth")
    case (Inl e)
    then show ?thesis using Cons.prems by simp
  next
    case (Inr E1)
    then have "setEnth3_i_loop config grid H T idx E1 = Inr E'"
      using Cons.prems by simp
    then have rest: "\<forall>i \<in> set idx. \<forall>j \<in> {ys grid .. ys grid + ym grid - 1}.
                       \<forall>k \<in> {0 .. Mz grid - 1}. \<exists>v. cold_ice_cell config grid H T (i, j, k) = Inr v"
      by (rule Cons.IH)
    from j_loop_returns[OF Inr]
    have "\<forall>j \<in> {ys grid .. ys grid + ym grid - 1}. \<forall>k \<in> {0 .. Mz grid - 1}.
            \<exists>v. cold_ice_cell config grid H T (i, j, k) = Inr v"
      by simp
    then show ?thesis using rest by simp
  qed
qed

lemma cold_ice_cell_fails:
  assumes "0 < vH' (i, j) - zlevels grid k"
      and "water_melting_temperature config + 1 / 1000000 < T (i, j, k)"
  shows "cold_ice_cell config grid vH' T (i, j, k) = Inl SupercooledInputError"
  using assms by (simp add: cold_ice_cell_def Let_def getEnth_def)

text \<open>
  Claim C6.  When the input file has no variable \<open>enthalpy\<close>, the base initialisation
  has returned the model \<open>m1\<close>, and no temperature within the ice of an owned column exceeds
  \<open>T_0\<close> by more than 0.000001 (otherwise \<open>getEnth\<close> ends the run), \<open>initFromFile\<close>
  returns \<open>m1\<close> with the enthalpy field replaced by the ghost exchange of a field \<open>Enth\<close>
  such that: at every owned cell of positive depth \<open>d\<close>, the pressure is the overburden
  pressure \<open>p = surface_pressure + ice_density * earth_gravity * d\<close> and \<open>Enth\<close> is the
  enthalpy \<open>getEnth(T, 0, p)\<close> of the cell's temperature at zero water fraction, which is
  \<open>H_s(p) + c_i (T - T_0)\<close>; at every owned cell of depth zero or less, \<open>Enth\<close> is 0;
  everywhere else \<open>Enth\<close> is the enthalpy field of \<open>m1\<close>.
\<close>

theorem cold_ice_fallback:
  assumes noenth: "''enthalpy'' \<notin> set (var_names file)"
      and base: "base_initFromFile file m = Inr m1"
      and cold: "\<forall>i j k. xs grid \<le> i \<and> i < xs grid + xm grid
                   \<and> ys grid \<le> j \<and> j < ys grid + ym grid \<and> 0 \<le> k \<and> k < Mz grid
                   \<and> 0 < vH m1 (i, j) - zlevels grid k
                 \<longrightarrow> T3 m1 (i, j, k) \<le> water_melting_temperature config + 1 / 1000000"
  shows "\<exists>Enth.
           initFromFile base_initFromFile regrid ghostComm config grid file m
             = Inr (m1\<lparr>Enth3 := ghostComm Enth\<rparr>)
         \<and> (\<forall>i j k. xs grid \<le> i \<and> i < xs grid + xm grid
                   \<and> ys grid \<le> j \<and> j < ys grid + ym grid \<and> 0 \<le> k \<and> k < Mz grid
               \<longrightarrow> (0 < vH m1 (i, j) - zlevels grid k \<longrightarrow>
                      getPressureFromDepth config (vH m1 (i, j) - zlevels grid k)
                        = surface_pressure config
                            + ice_density config * earth_gravity config
                              * (vH m1 (i, j) - zlevels grid k)
                    \<and> getEnth config (T3 m1 (i, j, k)) 0
                        (getPressureFromDepth config (vH m1 (i, j) - zlevels grid k))
                        = Inr (Enth (i, j, k))
                    \<and> Enth (i, j, k)
                        = H_s_of config
                            (surface_pressure config
                              + ice_density config * earth_gravity config
                                * (vH m1 (i, j) - zlevels grid k))
                          + ice_specific_heat_capacity config
                            * (T3 m1 (i, j, k) - water_melting_temperature config))
                 \<and> (vH m1 (i, j) - zlevels grid k \<le> 0 \<longrightarrow> Enth (i, j, k) = 0))
         \<and> (\<forall>i j k. \<not> (xs grid \<le> i \<and> i < xs grid + xm grid
                      \<and> ys grid \<le> j \<and> j < ys grid + ym grid \<and> 0 \<le> k \<and> k < Mz grid)
               \<longrightarrow> Enth (i, j, k) = Enth3 m1 (i, j, k))"
proof -
  have ok: "\<forall>i \<in> set [xs grid .. xs grid + xm grid - 1].
              \<forall>j \<in> {ys grid .. ys grid + ym grid - 1}. \<forall>k \<in> {0 .. Mz grid - 1}.
                \<exists>v. cold_ice_cell config grid (vH m1) (T3 m1) (i, j, k) = Inr v"
  proof (intro ballI)
    fix i j k
    assume "i \<in> set [xs grid .. xs grid + xm grid - 1]"
       and "j \<in> {ys grid .. ys grid + ym grid - 1}" and "k \<in> {0 .. Mz grid - 1}"
    then have "0 < vH m1 (i, j) - zlevels grid k
                 \<longrightarrow> T3 m1 (i, j, k) \<le> water_melting_temperature config + 1 / 1000000"
      using cold by simp
    then show "\<exists>v. cold_ice_cell config grid (vH m1) (T3 m1) (i, j, k) = Inr v"
      by (rule cold_ice_cell_ok)
  qed
  from i_loop_result[OF ok, of "Enth3 m1"] obtain E where
    run: "setEnth3_i_loop config grid (vH m1) (T3 m1) [xs grid .. xs grid + xm grid - 1] (Enth3 m1) = Inr E"
    and inside: "\<forall>i \<in> set [xs grid .. xs grid + xm grid - 1].
                   \<forall>j \<in> {ys grid .. ys grid + ym grid - 1}. \<forall>k \<in> {0 .. Mz grid - 1}.
                     cold_ice_cell config grid (vH m1) (T3 m1) (i, j, k) = Inr (E (i, j, k))"
    and outside: "\<forall>c. (\<forall>i \<in> set [xs grid .. xs grid + xm grid - 1].
                         \<forall>j \<in> {ys grid .. ys grid + ym grid - 1}. \<forall>k \<in> {0 .. Mz grid - 1}.
                           c \<noteq> (i, j, k)) \<longrightarrow> E c = Enth3 m1 c"
    by blast
  have result: "initFromFile base_initFromFile regrid ghostComm config grid file m
                  = Inr (m1\<lparr>Enth3 := ghostComm E\<rparr>)"
    using noenth base run by (simp add: initFromFile_def setEnth3FromT3_ColdIce_def)
  have cells: "\<forall>i j k. xs grid \<le> i \<and> i < xs grid + xm grid
                   \<and> ys grid \<le> j \<and> j < ys grid + ym grid \<and> 0 \<le> k \<and> k < Mz grid
               \<longrightarrow> (0 < vH m1 (i, j) - zlevels grid k \<longrightarrow>
                      getPressureFromDepth config (vH m1 (i, j) - zlevels grid k)
                        = surface_pressure config
                            + ice_density config * earth_gravity config
                              * (vH m1 (i, j) - zlevels grid k)
                    \<and> getEnth config (T3 m1 (i, j, k)) 0
                        (getPressureFromDepth config (vH m1 (i, j) - zlevels grid k))
                        = Inr (E (i, j, k))
                    \<and> E (i, j, k)
                        = H_s_of config
                            (surface_pressure config
                              + ice_density config * earth_gravity config
                                * (vH m1 (i, j) - zlevels grid k))
                          + ice_specific_heat_capacity config
                            * (T3 m1 (i, j, k) - water_melting_temperature config))
                 \<and> (vH m1 (i, j) - zlevels grid k \<le> 0 \<longrightarrow> E (i, j, k) = 0)"
  proof (intro allI impI)
    fix i j k
    assume own: "xs grid \<le> i \<and> i < xs grid + xm grid
                   \<and> ys grid \<le> j \<and> j < ys grid + ym grid \<and> 0 \<le> k \<and> k < Mz grid"
    then have "cold_ice_cell config grid (vH m1) (T3 m1) (i, j, k) = Inr (E (i, j, k))"
      using inside by simp
    then show "(0 < vH m1 (i, j) - zlevels grid k \<longrightarrow>
                      getPressureFromDepth config (vH m1 (i, j) - zlevels grid k)
                        = surface_pressure config
                            + ice_density config * earth_gravity config
                              * (vH m1 (i, j) - zlevels grid k)
                    \<and> getEnth config (T3 m1 (i, j, k)) 0
                        (getPressureFromDepth config (vH m1 (i, j) - zlevels grid k))
                        = Inr (E (i, j, k))
                    \<and> E (i, j, k)
                        = H_s_of config
                            (surface_pressure config
                              + ice_density config * earth_gravity config
                                * (vH m1 (i, j) - zlevels grid k))
                          + ice_specific_heat_capacity config
                            * (T3 m1 (i, j, k) - water_melting_temperature config))
                 \<and> (vH m1 (i, j) - zlevels grid k \<le> 0 \<longrightarrow> E (i, j, k) = 0)"
      by (auto simp: cold_ice_cell_def getPressureFromDepth_def getEnth_cases Let_def
               split: if_splits)
  qed
  have others: "\<forall>i j k. \<not> (xs grid \<le> i \<and> i < xs grid + xm grid
                      \<and> ys grid \<le> j \<and> j < ys grid + ym grid \<and> 0 \<le> k \<and> k < Mz grid)
               \<longrightarrow> E (i, j, k) = Enth3 m1 (i, j, k)"
  proof (intro allI impI)
    fix i j k
    assume out: "\<not> (xs grid \<le> i \<and> i < xs grid + xm grid
                      \<and> ys grid \<le> j \<and> j < ys grid + ym grid \<and> 0 \<le> k \<and> k < Mz grid)"
    have "\<forall>i' \<in> set [xs grid .. xs grid + xm grid - 1].
            \<forall>j' \<in> {ys grid .. ys grid + ym grid - 1}. \<forall>k' \<in> {0 .. Mz grid - 1}.
              (i, j, k) \<noteq> (i', j', k')"
      using out by auto
    then show "E (i, j, k) = Enth3 m1 (i, j, k)" using outside by blast
  qed
  from result cells others show ?thesis by blast
qed

theorem cold_ice_fallback_witness:
  "\<exists>Enth.
     initFromFile keep_model keep_model (\<lambda>E. E) scenario_config example_grid example_file example_model
       = Inr (example_model\<lparr>Enth3 := Enth\<rparr>)
     \<and> getPressureFromDepth scenario_config 150 = 1339065
     \<and> getEnth scenario_config 260 0 (getPressureFromDepth scenario_config 150) = Inr (Enth (0, 0, 0))
     \<and> Enth (0, 0, 0) = H_s_of scenario_config 1339065 + 2009 * (260 - 27315 / 100)
     \<and> getPressureFromDepth scenario_config 50 = 446355
     \<and> getEnth scenario_config 260 0 (getPressureFromDepth scenario_config 50) = Inr (Enth (1, 0, 1))
     \<and> Enth (1, 0, 1) = H_s_of scenario_config 446355 + 2009 * (260 - 27315 / 100)
     \<and> Enth (1, 0, 2) = 0
     \<and> Enth (2, 0, 0) = 7"
proof -
  have h1: "''enthalpy'' \<notin> set (var_names example_file)"
    by (simp add: example_file_def)
  have h2: "keep_model example_file example_model = Inr example_model"
    by (simp add: keep_model_def)
  have h3: "\<forall>i j k. xs example_grid \<le> i \<and> i < xs example_grid + xm example_grid
                   \<and> ys example_grid \<le> j \<and> j < ys example_grid + ym example_grid
                   \<and> 0 \<le> k \<and> k < Mz example_grid
                   \<and> 0 < vH example_model (i, j) - zlevels example_grid k
                 \<longrightarrow> T3 example_model (i, j, k) \<le> water_melting_temperature scenario_config + 1 / 1000000"
    by (simp add: example_fields scenario_fields)
  from cold_ice_fallback[where base_initFromFile = keep_model and ?file = example_file
      and m = example_model and ?m1.0 = example_model and grid = example_grid
      and config = scenario_config and regrid = keep_model and ghostComm = "\<lambda>E. E",
      OF h1 h2 h3] obtain Enth where
    r: "initFromFile keep_model keep_model (\<lambda>E. E) scenario_config example_grid example_file example_model
          = Inr (example_model\<lparr>Enth3 := Enth\<rparr>)"
    and inside: "\<And>i j k. xs example_grid \<le> i \<and> i < xs example_grid + xm example_grid
                   \<and> ys example_grid \<le> j \<and> j < ys example_grid + ym example_grid
                   \<and> 0 \<le> k \<and> k < Mz example_grid
               \<Longrightarrow> (0 < vH example_model (i, j) - zlevels example_grid k \<longrightarrow>
                      getPressureFromDepth scenario_config (vH example_model (i, j) - zlevels example_grid k)
                        = surface_pressure scenario_config
                            + ice_density scenario_config * earth_gravity scenario_config
                              * (vH example_model (i, j) - zlevels example_grid k)
                    \<and> getEnth scenario_config (T3 example_model (i, j, k)) 0
                        (getPressureFromDepth scenario_config (vH example_model (i, j) - zlevels example_grid k))
                        = Inr (Enth (i, j, k))
                    \<and> Enth (i, j, k)
                        = H_s_of scenario_config
                            (surface_pressure scenario_config
                              + ice_density scenario_config * earth_gravity scenario_config
                                * (vH example_model (i, j) - zlevels example_grid k))
                          + ice_specific_heat_capacity scenario_config
                            * (T3 example_model (i, j, k) - water_melting_temperature scenario_config))
                 \<and> (vH example_model (i, j) - zlevels example_grid k \<le> 0 \<longrightarrow> Enth (i, j, k) = 0)"
    and outside: "\<And>i j k. \<not> (xs example_grid \<le> i \<and> i < xs example_grid + xm example_grid
                      \<and> ys example_grid \<le> j \<and> j < ys example_grid + ym example_grid
                      \<and> 0 \<le> k \<and> k < Mz example_grid)
               \<Longrightarrow> Enth (i, j, k) = Enth3 example_model (i, j, k)"
    by blast
  have c000: "getPressureFromDepth scenario_config 150 = 1339065
     \<and> getEnth scenario_config 260 0 (getPressureFromDepth scenario_config 150) = Inr (Enth (0, 0, 0))
     \<and> Enth (0, 0, 0) = H_s_of scenario_config 1339065 + 2009 * (260 - 27315 / 100)"
    using inside[of 0 0 0] by (auto simp: example_grid_def example_fields scenario_fields)
  have c101: "getPressureFromDepth scenario_config 50 = 446355
     \<and> getEnth scenario_config 260 0 (getPressureFromDepth scenario_config 50) = Inr (Enth (1, 0, 1))
     \<and> Enth (1, 0, 1) = H_s_of scenario_config 446355 + 2009 * (260 - 27315 / 100)"
    using inside[of 1 0 1] by (auto simp: example_grid_def example_fields scenario_fields)
  have c102: "Enth (1, 0, 2) = 0"
    using inside[of 1 0 2] by (simp add: example_grid_def example_fields)
  have c200: "Enth (2, 0, 0) = 7"
    using outside[of 2 0 0] by (simp add: example_grid_def example_fields)
  from r c000 c101 c102 c200 show ?thesis by blast
qed

text \<open>
  The hypothesis on the temperatures cannot be dropped: one owned cell within the ice that
  is warmer than \<open>T_0 + 0.000001\<close> makes \<open>getEnth\<close> end the run.
\<close>

lemma cold_ice_fallback_supercooled:
  assumes noenth: "''enthalpy'' \<notin> set (var_names file)"
      and base: "base_initFromFile file m = Inr m1"
      and own: "xs grid \<le> i \<and> i < xs grid + xm grid \<and> ys grid \<le> j \<and> j < ys grid + ym grid
                  \<and> 0 \<le> k \<and> k < Mz grid"
      and ice: "0 < vH m1 (i, j) - zlevels grid k"
      and warm: "water_melting_temperature config + 1 / 1000000 < T3 m1 (i, j, k)"
  shows "\<exists>e. initFromFile base_initFromFile regrid ghostComm config grid file m = Inl e"
proof (cases "setEnth3_i_loop config grid (vH m1) (T3 m1) [xs grid .. xs grid + xm grid - 1] (Enth3 m1)")
  case (Inl e)
  then show ?thesis
    using noenth base by (simp add: initFromFile_def setEnth3FromT3_ColdIce_def)
next
  case (Inr E)
  from i_loop_returns[OF Inr] own
  have "\<exists>v. cold_ice_cell config grid (vH m1) (T3 m1) (i, j, k) = Inr v"
    by simp
  moreover have "cold_ice_cell config grid (vH m1) (T3 m1) (i, j, k) = Inl SupercooledInputError"
    using ice warm by (rule cold_ice_cell_fails)
  ultimately show ?thesis by simp
qed


section \<open>Particle queries and enhancement factors\<close>




text \<open>
  The vertical search stays within the levels, as the comment in the source asks
  ("K + 1 should be at most Mz - 1"): on a grid of at least two levels the level found and
  the one above it are levels of the grid.
\<close>

lemma top_level_uint:
  assumes "2 \<le> Mz grid" "Mz grid \<le> 2 ^ 32"
  shows "uint (word_of_int (Mz grid) - 1 :: 32 word) = Mz grid - 1"
proof -
  have "(word_of_int (Mz grid) - 1 :: 32 word) = word_of_int (Mz grid - 1)"
    by simp
  moreover have "uint (word_of_int (Mz grid - 1) :: 32 word) = (Mz grid - 1) mod 2 ^ 32"
    by (simp only: uint_word_of_int) simp
  moreover have "(Mz grid - 1) mod 2 ^ 32 = Mz grid - 1"
    using assms by (simp add: mod_pos_pos_trivial)
  ultimately show ?thesis by simp
qed

lemma level_below_within:
  assumes "2 \<le> Mz grid" "Mz grid \<le> 2 ^ 32" "uint K + 1 \<le> Mz grid - 1"
  shows "uint K \<le> uint (level_below grid z K) \<and> uint (level_below grid z K) + 1 \<le> Mz grid - 1"
  using assms
proof (induction grid z K rule: level_below.induct)
  case (1 grid z K)
  note top = top_level_uint[OF "1.prems"(1) "1.prems"(2)]
  show ?case
  proof (cases "K + 1 < word_of_int (Mz grid) - 1 \<and> zlevels grid (uint (K + 1)) < z")
    case True
    have small: "uint K + 1 < 2 ^ 32" using "1.prems" by simp
    have next_level: "uint (K + 1) = uint K + 1"
      using small by (simp add: uint_plus_if_size word_size)
    from True have "uint (K + 1) < Mz grid - 1"
      using top by (simp add: word_less_def)
    then have room: "uint (K + 1) + 1 \<le> Mz grid - 1" by simp
    have step: "level_below grid z K = level_below grid z (K + 1)"
      by (subst level_below.simps) (simp only: True simp_thms if_True)
    from "1.IH"[OF True "1.prems"(1) "1.prems"(2) room]
    show ?thesis using step next_level by simp
  next
    case False
    have "level_below grid z K = K"
      by (subst level_below.simps) (simp only: False simp_thms if_False)
    then show ?thesis using "1.prems" by simp
  qed
qed

lemma level_below_in_range:
  assumes "2 \<le> Mz grid" "Mz grid \<le> 2 ^ 32"
  shows "0 \<le> uint (level_below grid z 0) \<and> uint (level_below grid z 0) + 1 \<le> Mz grid - 1"
  using level_below_within[OF assms, of 0 z] assms by simp




text \<open>
  With weights of sum 1, as bilinear weights have, a field that is constant is interpolated
  to that constant.
\<close>

lemma interp_field_point_constant:
  assumes "ciw x y ! 0 + ciw x y ! 1 + ciw x y ! 2 + ciw x y ! 3 = 1"
  shows "interp_field_point cpn ciw grid x y z (\<lambda>c. v) = Inr v"
proof -
  have "ciw x y ! 0 * v + ciw x y ! 1 * v + ciw x y ! 2 * v + ciw x y ! 3 * v
          = (ciw x y ! 0 + ciw x y ! 1 + ciw x y ! 2 + ciw x y ! 3) * v"
    by (simp add: algebra_simps)
  then show ?thesis
    using assms by (simp add: interp_field_point_def Let_def split: prod.splits)
qed

lemma bounded_quotient:
  "d \<noteq> NaN \<Longrightarrow>
     within_bounds (if double_less d (Finite 1) then Finite 1
                    else if double_less (Finite 10) d then Finite 10 else d)"
  by (cases d) auto

lemma bounded_quotient_finite:
  "(if double_less (Finite r) (Finite 1) then Finite 1
    else if double_less (Finite 10) (Finite r) then Finite 10 else Finite r)
     = Finite (if r < 1 then 1 else if 10 < r then 10 else r)"
  by simp

lemma unbounded_nan:
  "(if double_less NaN (Finite 1) then Finite 1
    else if double_less (Finite 10) NaN then Finite 10 else NaN) = NaN"
  by simp

lemma enhancement_loop_result:
  assumes "enhancement_loop magnitudes idx p_e = Inr q"
  shows "length q = length p_e
       \<and> (\<forall>i < length p_e.
            (i \<in> set idx \<longrightarrow>
               (\<exists>a b. magnitudes i = Inr (a, b)
                  \<and> q ! i = (if double_less (double_div a b) (Finite 1) then Finite 1
                             else if double_less (Finite 10) (double_div a b) then Finite 10
                             else double_div a b)))
          \<and> (i \<notin> set idx \<longrightarrow> q ! i = p_e ! i))"
  using assms
proof (induction idx arbitrary: p_e)
  case Nil
  then show ?case by simp
next
  case (Cons i rest)
  from Cons.prems obtain a b where ab: "magnitudes i = Inr (a, b)"
    by (cases "magnitudes i") auto
  define d where "d = double_div a b"
  define p1 where "p1 = p_e[i := d]"
  define p2 where "p2 = (if double_less (p1 ! i) (Finite 1) then p1[i := Finite 1]
                         else if double_less (Finite 10) (p1 ! i) then p1[i := Finite 10]
                         else p1)"
  have run: "enhancement_loop magnitudes rest p2 = Inr q"
    using Cons.prems ab by (auto simp: p1_def p2_def d_def Let_def split: if_splits)
  have len: "length p2 = length p_e" by (simp add: p1_def p2_def)
  have at_i: "i < length p_e \<Longrightarrow>
      p2 ! i = (if double_less d (Finite 1) then Finite 1
                else if double_less (Finite 10) d then Finite 10 else d)"
    by (simp add: p1_def p2_def)
  have other: "\<And>k. k \<noteq> i \<Longrightarrow> p2 ! k = p_e ! k"
    by (simp add: p1_def p2_def)
  from Cons.IH[OF run] have IH: "length q = length p2"
    "\<And>k. k < length p2 \<Longrightarrow> k \<in> set rest \<Longrightarrow>
       (\<exists>a b. magnitudes k = Inr (a, b)
          \<and> q ! k = (if double_less (double_div a b) (Finite 1) then Finite 1
                     else if double_less (Finite 10) (double_div a b) then Finite 10
                     else double_div a b))"
    "\<And>k. k < length p2 \<Longrightarrow> k \<notin> set rest \<Longrightarrow> q ! k = p2 ! k"
    by auto
  show ?case
  proof (intro conjI allI impI)
    show "length q = length p_e" using IH(1) len by simp
  next
    fix k assume k: "k < length p_e" and mem: "k \<in> set (i # rest)"
    show "\<exists>a b. magnitudes k = Inr (a, b)
          \<and> q ! k = (if double_less (double_div a b) (Finite 1) then Finite 1
                     else if double_less (Finite 10) (double_div a b) then Finite 10
                     else double_div a b)"
    proof (cases "k \<in> set rest")
      case True
      then show ?thesis using IH(2)[of k] k len by simp
    next
      case False
      then have ki: "k = i" using mem by simp
      have "q ! k = p2 ! k" using IH(3)[of k] False k len by simp
      then have "q ! i = (if double_less d (Finite 1) then Finite 1
                else if double_less (Finite 10) d then Finite 10 else d)"
        using at_i k ki by simp
      then show ?thesis using ab ki by (simp add: d_def)
    qed
  next
    fix k assume k: "k < length p_e" and mem: "k \<notin> set (i # rest)"
    then show "q ! k = p_e ! k" using IH(3)[of k] other[of k] len by simp
  qed
qed

lemma enhancement_factor_bounds:
  assumes "update_p_e magnitudes = Inr p_e"
  shows "length p_e = n_particles
       \<and> (\<forall>i < n_particles.
            \<exists>a b. magnitudes i = Inr (a, b)
              \<and> (double_div a b \<noteq> NaN \<longrightarrow> within_bounds (p_e ! i))
              \<and> (double_div a b = NaN \<longrightarrow> p_e ! i = NaN)
              \<and> (\<forall>r. double_div a b = Finite r \<longrightarrow>
                    p_e ! i = Finite (if r < 1 then 1 else if 10 < r then 10 else r)))"
proof -
  from assms have run:
    "enhancement_loop magnitudes [0 ..< n_particles] (replicate n_particles (Finite 1)) = Inr p_e"
    by (simp add: update_p_e_def)
  note b = enhancement_loop_result[OF run]
  have len: "length p_e = n_particles" using b by simp
  have each: "\<And>i. i < n_particles \<Longrightarrow>
      \<exists>a b. magnitudes i = Inr (a, b)
        \<and> p_e ! i = (if double_less (double_div a b) (Finite 1) then Finite 1
                     else if double_less (Finite 10) (double_div a b) then Finite 10
                     else double_div a b)"
    using b by simp
  show ?thesis
  proof (intro conjI allI impI)
    show "length p_e = n_particles" by (rule len)
  next
    fix i assume "i < n_particles"
    from each[OF this] obtain a b where ab: "magnitudes i = Inr (a, b)"
      and v: "p_e ! i = (if double_less (double_div a b) (Finite 1) then Finite 1
                     else if double_less (Finite 10) (double_div a b) then Finite 10
                     else double_div a b)"
      by blast
    have n1: "double_div a b \<noteq> NaN \<longrightarrow> within_bounds (p_e ! i)"
      using bounded_quotient[of "double_div a b"] v by simp
    have n2: "double_div a b = NaN \<longrightarrow> p_e ! i = NaN"
      using v by simp
    have n3: "\<forall>r. double_div a b = Finite r \<longrightarrow>
                p_e ! i = Finite (if r < 1 then 1 else if 10 < r then 10 else r)"
    proof (intro allI impI)
      fix r assume e: "double_div a b = Finite r"
      show "p_e ! i = Finite (if r < 1 then 1 else if 10 < r then 10 else r)"
        using v unfolding e by (simp only: bounded_quotient_finite)
    qed
    from ab n1 n2 n3
    show "\<exists>a b. magnitudes i = Inr (a, b)
              \<and> (double_div a b \<noteq> NaN \<longrightarrow> within_bounds (p_e ! i))
              \<and> (double_div a b = NaN \<longrightarrow> p_e ! i = NaN)
              \<and> (\<forall>r. double_div a b = Finite r \<longrightarrow>
                    p_e ! i = Finite (if r < 1 then 1 else if 10 < r then 10 else r))"
      by blast
  qed
qed

lemma enhancement_loop_returns:
  assumes "\<forall>i \<in> set idx. \<exists>a b. magnitudes i = Inr (a, b)"
  shows "\<exists>q. enhancement_loop magnitudes idx p_e = Inr q"
  using assms
proof (induction idx arbitrary: p_e)
  case Nil
  then show ?case by simp
next
  case (Cons i rest)
  from Cons.prems obtain a b where ab: "magnitudes i = Inr (a, b)" by auto
  from Cons.prems have "\<forall>i \<in> set rest. \<exists>a b. magnitudes i = Inr (a, b)" by simp
  note step = Cons.IH[OF this]
  show ?case
    using ab step by (simp add: Let_def)
qed

text \<open>
  Claim C9 holds of every quotient that is a number or an infinity
  (\<open>enhancement_factor_bounds\<close>), and fails of the code where the quotient is NaN.  A
  particle whose two tensor magnitudes are both zero has the quotient \<open>0 / 0\<close>, which is
  NaN; both comparisons of the bounds are false for it, so the loop leaves NaN as the
  enhancement factor of that particle, which is not within \<open>[1, 10]\<close>.
\<close>

theorem enhancement_factor_nan:
  "example_magnitudes 2 = Inr (Finite 0, Finite 0)
   \<and> double_div (Finite 0) (Finite 0) = NaN
   \<and> (\<exists>p_e. update_p_e example_magnitudes = Inr p_e
          \<and> p_e ! 0 = Finite 1 \<and> p_e ! 1 = Finite 10 \<and> p_e ! 2 = NaN
          \<and> \<not> within_bounds (p_e ! 2))"
proof -
  have m: "\<And>i. \<exists>a b. example_magnitudes i = Inr (a, b)"
    by (simp add: example_magnitudes_def)
  have m0: "example_magnitudes 0 = Inr (Finite 1, Finite 2)"
   and m1: "example_magnitudes 1 = Inr (Finite 25, Finite 1)"
   and m2: "example_magnitudes 2 = Inr (Finite 0, Finite 0)"
    by (simp_all add: example_magnitudes_def)
  have q2: "double_div (Finite 0) (Finite 0) = NaN" by simp
  from enhancement_loop_returns[of "[0 ..< n_particles]" example_magnitudes "replicate n_particles (Finite 1)"] m
  obtain p_e where run: "update_p_e example_magnitudes = Inr p_e"
    by (auto simp: update_p_e_def)
  note b = enhancement_factor_bounds[OF run]
  have i0: "0 < n_particles" and i1: "1 < n_particles" and i2: "2 < n_particles"
    by (simp_all add: n_particles_def)
  have each: "\<And>i a c. i < n_particles \<Longrightarrow> example_magnitudes i = Inr (a, c) \<Longrightarrow>
      (double_div a c = NaN \<longrightarrow> p_e ! i = NaN)
      \<and> (\<forall>r. double_div a c = Finite r \<longrightarrow>
             p_e ! i = Finite (if r < 1 then 1 else if 10 < r then 10 else r))"
  proof -
    fix i a c
    assume i: "i < n_particles" and e: "example_magnitudes i = Inr (a, c)"
    from b i obtain a' c' where e': "example_magnitudes i = Inr (a', c')"
      and r: "(double_div a' c' = NaN \<longrightarrow> p_e ! i = NaN)
              \<and> (\<forall>r. double_div a' c' = Finite r \<longrightarrow>
                    p_e ! i = Finite (if r < 1 then 1 else if 10 < r then 10 else r))"
      by blast
    from e e' have "a' = a" "c' = c" by simp_all
    with r show "(double_div a c = NaN \<longrightarrow> p_e ! i = NaN)
      \<and> (\<forall>r. double_div a c = Finite r \<longrightarrow>
             p_e ! i = Finite (if r < 1 then 1 else if 10 < r then 10 else r))"
      by simp
  qed
  have d0: "double_div (Finite 1) (Finite 2) = Finite (1 / 2)" by simp
  have d1: "double_div (Finite 25) (Finite 1) = Finite 25" by simp
  from each[OF i0 m0] d0
  have "p_e ! 0 = Finite (if (1 / 2 :: real) < 1 then 1 else if 10 < (1 / 2 :: real) then 10 else 1 / 2)"
    by blast
  then have p0: "p_e ! 0 = Finite 1" by simp
  from each[OF i1 m1] d1
  have "p_e ! 1 = Finite (if (25 :: real) < 1 then 1 else if 10 < (25 :: real) then 10 else 25)"
    by blast
  then have p1: "p_e ! 1 = Finite 10" by simp
  from each[OF i2 m2] q2 have p2: "p_e ! 2 = NaN" by blast
  have "\<not> within_bounds (p_e ! 2)" by (simp add: p2)
  with run p0 p1 p2 m2 q2 show ?thesis by blast
qed


section \<open>Opening a file through CDI-PIO\<close>

text \<open>
  Claim C10.  \<open>CDI::open_impl\<close> called with the mode \<open>PISM_READONLY\<close> throws the runtime
  error "file reading not supported with CDI-PIO in PISM" and leaves every member of the
  object as it was; and a call returns normally exactly when the mode is another one.
\<close>

theorem open_readonly_throws:
  "open_impl lib c fname PISM_READONLY FileID dimsa
     = (Inl (RuntimeError ''file reading not supported with CDI-PIO in PISM''), c)
   \<and> ((\<exists>c'. open_impl lib c fname mode FileID dimsa = (Inr (), c')) \<longleftrightarrow> mode \<noteq> PISM_READONLY)"
  by (auto simp: open_impl_def Let_def)

end
